theory Spec2Isabelle
  imports Main "HOL-Library.Word" "HOL-Library.Char_ord" "HOL-Library.List_Lexorder"
begin

section \<open>Types of Simple C (Type.cpp)\<close>

text \<open>
  The specifier of a type is one of the four token codes the parser accepts
  (\<open>isSpecifier\<close> in parser.cpp). The names carry a suffix where the plain name
  is taken by Isabelle's syntax.
\<close>

datatype Specifier = INT_t | CHAR_t | LONG_t | VOID_t

text \<open>
  A \<open>Type\<close> is tagged by its declarator: ERROR, SCALAR, ARRAY or FUNCTION. The
  indirection is an \<open>unsigned\<close> (32 bits), the array length an \<open>unsigned long\<close>
  (64 bits); the parameter list of a function is a pointer to a vector of types
  which is null for a declaration \<open>f()\<close>.
\<close>

datatype Type =
    Error
  | Scalar Specifier "32 word"
  | Array Specifier "32 word" "64 word"
  | Function Specifier "32 word" "Type list option"

text \<open>
  \<open>Type::operator ==\<close>: different declarators are unequal, the error type equals
  itself, then specifier and indirection are compared, then the length of an array;
  two function types are equal as soon as one of the parameter lists is null, and
  otherwise their vectors are compared (element-wise, with this same operator).
\<close>

fun type_eq :: "Type \<Rightarrow> Type \<Rightarrow> bool" where
  "type_eq Error Error = True"
| "type_eq (Scalar s i) (Scalar s' i') = (s = s' \<and> i = i')"
| "type_eq (Array s i n) (Array s' i' n') = (s = s' \<and> i = i' \<and> n = n')"
| "type_eq (Function s i ps) (Function s' i' ps') =
     (if s \<noteq> s' then False
      else if i \<noteq> i' then False
      else (case ps of
              None \<Rightarrow> True
            | Some p \<Rightarrow> (case ps' of
                           None \<Rightarrow> True
                         | Some q \<Rightarrow> list_all2 type_eq p q)))"
| "type_eq _ _ = False"

definition type_neq :: "Type \<Rightarrow> Type \<Rightarrow> bool" where
  "type_neq a b = (\<not> type_eq a b)"

fun isArray :: "Type \<Rightarrow> bool" where
  "isArray (Array s i n) = True"
| "isArray _ = False"

fun isScalar :: "Type \<Rightarrow> bool" where
  "isScalar (Scalar s i) = True"
| "isScalar _ = False"

fun isFunction :: "Type \<Rightarrow> bool" where
  "isFunction (Function s i ps) = True"
| "isFunction _ = False"

fun isError :: "Type \<Rightarrow> bool" where
  "isError Error = True"
| "isError _ = False"

fun isPointer :: "Type \<Rightarrow> bool" where
  "isPointer (Scalar s i) = (0 < i)"
| "isPointer (Array s i n) = True"
| "isPointer _ = False"

fun isNumeric :: "Type \<Rightarrow> bool" where
  "isNumeric (Scalar s i) = (i = 0 \<and> s \<noteq> VOID_t)"
| "isNumeric _ = False"

definition isPredicate :: "Type \<Rightarrow> bool" where
  "isPredicate t = (isNumeric t \<or> isPointer t)"

text \<open>\<open>Type::promote\<close>: char becomes int, an array becomes a pointer.\<close>

fun Type_promote :: "Type \<Rightarrow> Type" where
  "Type_promote (Scalar s i) =
     (if i = 0 \<and> s = CHAR_t then Scalar INT_t 0 else Scalar s i)"
| "Type_promote (Array s i n) = Scalar s (i + 1)"
| "Type_promote t = t"

text \<open>
  \<open>Type::deref\<close> asserts that the type is a scalar with a positive indirection;
  a failed assertion aborts the compiler, which is the value \<open>None\<close>.
\<close>

fun Type_deref :: "Type \<Rightarrow> Type option" where
  "Type_deref (Scalar s i) = (if 0 < i then Some (Scalar s (i - 1)) else None)"
| "Type_deref _ = None"

definition voidptr :: Type where
  "voidptr = Scalar VOID_t 1"

definition integer :: Type where
  "integer = Scalar INT_t 0"

definition character :: Type where
  "character = Scalar CHAR_t 0"

definition longint :: Type where
  "longint = Scalar LONG_t 0"

definition isCompatibleWith :: "Type \<Rightarrow> Type \<Rightarrow> bool" where
  "isCompatibleWith this that =
     (if isNumeric this \<and> isNumeric that then True
      else if \<not> isPointer this \<or> \<not> isPointer that then False
      else type_eq (Type_promote this) (Type_promote that)
           \<or> type_eq this voidptr \<or> type_eq that voidptr)"

text \<open>
  Modelled from the spec: machine.h is not among the sources; the sizes are the ABI
  constants the specification lists (SIZEOF_CHAR = 1, SIZEOF_INT = 4,
  SIZEOF_LONG = 8, SIZEOF_PTR = 8, SIZEOF_PARAM = 8, SIZEOF_REG = 8,
  NUM_PARAM_REGS = 6, STACK_ALIGNMENT = 16).
\<close>

definition SIZEOF_CHAR :: "64 word" where "SIZEOF_CHAR = 1"
definition SIZEOF_INT :: "64 word" where "SIZEOF_INT = 4"
definition SIZEOF_LONG :: "64 word" where "SIZEOF_LONG = 8"
definition SIZEOF_PTR :: "64 word" where "SIZEOF_PTR = 8"
definition SIZEOF_PARAM :: int where "SIZEOF_PARAM = 8"
definition SIZEOF_REG :: int where "SIZEOF_REG = 8"
definition NUM_PARAM_REGS :: nat where "NUM_PARAM_REGS = 6"
definition STACK_ALIGNMENT :: int where "STACK_ALIGNMENT = 16"

text \<open>
  \<open>Type::size\<close> (allocator.cpp) asserts that the type is neither a function nor
  the error type and computes in \<open>unsigned long\<close>, so the product of an array's
  length and its element size wraps modulo \<open>2 ^ 64\<close>. A void object has size 0.
\<close>

definition scalar_size :: "Specifier \<Rightarrow> 32 word \<Rightarrow> 64 word \<Rightarrow> 64 word" where
  "scalar_size s i count =
     (if 0 < i then count * SIZEOF_PTR
      else if s = CHAR_t then count * SIZEOF_CHAR
      else if s = INT_t then count * SIZEOF_INT
      else if s = LONG_t then count * SIZEOF_LONG
      else 0)"

fun Type_size :: "Type \<Rightarrow> 64 word option" where
  "Type_size (Scalar s i) = Some (scalar_size s i 1)"
| "Type_size (Array s i n) = Some (scalar_size s i n)"
| "Type_size _ = None"

text \<open>
  A type is \<open>complete\<close> when no function type inside it has a null parameter
  list. Every parameter the parser builds is a scalar, so the function types of
  definitions are complete.
\<close>

fun complete :: "Type \<Rightarrow> bool" where
  "complete (Function s i None) = False"
| "complete (Function s i (Some ps)) = list_all complete ps"
| "complete _ = True"


section \<open>Symbols and trees\<close>

text \<open>
  A symbol has a name, a type and the stack offset the allocator assigns
  (\<open>int _offset\<close>, 0 until then).
\<close>

record Symbol =
  sym_name :: string
  sym_type :: Type
  sym_offset :: int

text \<open>
  Modelled from the spec: Tree.h and Tree.cpp are not among the sources. The
  expression variants are those the specification lists; every node carries its
  type, a \<open>String\<close> has the type array of char whose length counts the bytes and
  the terminator, an \<open>Identifier\<close> has the type of its symbol. Literal values are
  \<open>unsigned long\<close>. Two constructor names carry a suffix because the plain name
  is a constant of HOL.
\<close>

datatype Expression =
    Number "64 word" Type
  | String_e string
  | Identifier Symbol
  | Call Symbol "Expression list" Type
  | Not_e Expression Type
  | Negate Expression Type
  | Address Expression Type
  | Dereference Expression Type
  | Cast Expression Type
  | Add Expression Expression Type
  | Subtract Expression Expression Type
  | Multiply Expression Expression Type
  | Divide Expression Expression Type
  | Remainder Expression Expression Type
  | LessThan Expression Expression Type
  | GreaterThan Expression Expression Type
  | LessOrEqual Expression Expression Type
  | GreaterOrEqual Expression Expression Type
  | Equal Expression Expression Type
  | NotEqual Expression Expression Type
  | LogicalAnd Expression Expression Type
  | LogicalOr Expression Expression Type

fun type_of :: "Expression \<Rightarrow> Type" where
  "type_of (Number v t) = t"
| "type_of (String_e s) = Array CHAR_t 0 (of_nat (length s + 1))"
| "type_of (Identifier symbol) = sym_type symbol"
| "type_of (Call symbol args t) = t"
| "type_of (Not_e e t) = t"
| "type_of (Negate e t) = t"
| "type_of (Address e t) = t"
| "type_of (Dereference e t) = t"
| "type_of (Cast e t) = t"
| "type_of (Add l r t) = t"
| "type_of (Subtract l r t) = t"
| "type_of (Multiply l r t) = t"
| "type_of (Divide l r t) = t"
| "type_of (Remainder l r t) = t"
| "type_of (LessThan l r t) = t"
| "type_of (GreaterThan l r t) = t"
| "type_of (LessOrEqual l r t) = t"
| "type_of (GreaterOrEqual l r t) = t"
| "type_of (Equal l r t) = t"
| "type_of (NotEqual l r t) = t"
| "type_of (LogicalAnd l r t) = t"
| "type_of (LogicalOr l r t) = t"

text \<open>
  Modelled from the spec: \<open>isNumber\<close> recognises a compile-time literal and
  yields its value; \<open>lvalue\<close> holds of an identifier of scalar type and of a
  dereference; the constructor \<open>Number(unsigned long)\<close>, which the checker uses
  for folded literals, builds a literal of type long (the comment of \<open>cast\<close>
  relies on it: an int literal becomes a long without a cast).
\<close>

fun isNumber :: "Expression \<Rightarrow> 64 word option" where
  "isNumber (Number v t) = Some v"
| "isNumber _ = None"

fun lvalue :: "Expression \<Rightarrow> bool" where
  "lvalue (Identifier symbol) = isScalar (sym_type symbol)"
| "lvalue (Dereference e t) = True"
| "lvalue _ = False"

definition Number_ul :: "64 word \<Rightarrow> Expression" where
  "Number_ul v = Number v longint"

text \<open>
  Modelled from the spec: the statement variants of Tree.h. A \<open>Block\<close> owns the
  scope it delimits; the allocator reads only the symbols of that scope, so the
  block carries the list of its symbols (in declaration order). The else branch of
  an \<open>If\<close> may be null.
\<close>

datatype Statement =
    Simple Expression
  | Assignment Expression Expression
  | Return Expression
  | While Expression Statement
  | For Statement Expression Statement Statement
  | If_s Expression Statement "Statement option"
  | Block "Symbol list" "Statement list"


section \<open>The semantic checker (checker.cpp)\<close>

text \<open>
  Modelled from the spec: \<open>report\<close> (lexer.cpp, not among the sources) writes one
  line to standard error and increments the error counter. A diagnostic is the
  message with its argument; a check returns the diagnostics it reported, in
  order. The trace lines that \<open>debug\<close> prints are no part of the model.
\<close>

datatype Diagnostic =
    redefined string
  | redeclared string
  | conflicting string
  | undeclared string
  | void_object string
  | invalid_return
  | invalid_test
  | invalid_lvalue
  | invalid_operands string
  | invalid_operand string
  | invalid_function
  | invalid_arguments

text \<open>
  \<open>promote\<close>, \<open>convert\<close> and \<open>extend\<close> take the expression by reference and
  replace it; the model returns the new expression, whose type is the type the
  source function returns. \<open>extend\<close> carries a suffix, since every record defines
  a constant of that name.
\<close>

definition promote :: "Expression \<Rightarrow> Expression" where
  "promote expr =
     (if isArray (type_of expr) then Address expr (Type_promote (type_of expr))
      else if type_eq (type_of expr) character then Cast expr integer
      else expr)"

definition cast :: "Expression \<Rightarrow> Type \<Rightarrow> Expression" where
  "cast expr ty =
     (case isNumber expr of
        Some v \<Rightarrow>
          if type_eq (type_of expr) integer \<and> type_eq ty longint then Number_ul v
          else Cast expr ty
      | None \<Rightarrow> Cast expr ty)"

definition convert :: "Expression \<Rightarrow> Type \<Rightarrow> Expression" where
  "convert expr ty =
     (let e1 = (if isArray (type_of expr) \<and> isPointer ty then promote expr else expr)
      in if type_neq (type_of e1) ty \<and> isNumeric (type_of e1) \<and> isNumeric ty
         then cast e1 ty else e1)"

definition extend_e :: "Expression \<Rightarrow> Type \<Rightarrow> Expression" where
  "extend_e expr ty =
     (let e1 = (if type_neq (type_of expr) ty \<and> isNumeric (type_of expr) \<and> isNumeric ty
                then (if type_eq (type_of expr) character \<or> type_eq ty longint
                      then cast expr ty else expr)
                else expr)
      in promote e1)"

text \<open>
  \<open>scale\<close> takes the size as an \<open>unsigned\<close>; the product with the literal is
  computed in \<open>unsigned long\<close>.
\<close>

definition scale :: "Expression \<Rightarrow> 32 word \<Rightarrow> Expression" where
  "scale expr sz =
     (case isNumber expr of
        Some v \<Rightarrow> Number_ul (v * ucast sz)
      | None \<Rightarrow> Multiply (extend_e expr longint) (Number_ul (ucast sz)) longint)"

text \<open>\<open>t.deref().size()\<close>: either assertion may fail.\<close>

definition deref_size :: "Type \<Rightarrow> 64 word option" where
  "deref_size t = (case Type_deref t of None \<Rightarrow> None | Some d \<Rightarrow> Type_size d)"

text \<open>
  The two argument loops of \<open>checkCall\<close>. Each replaces the arguments in place
  and stops at the first argument that fails; the flag tells whether the loop ran
  to its end.
\<close>

fun promote_args :: "Expression list \<Rightarrow> Expression list \<times> bool" where
  "promote_args [] = ([], True)"
| "promote_args (arg # args) =
     (let a = promote arg; t = type_of a
      in if type_neq t Error \<and> \<not> isPredicate t then (a # args, False)
         else (case promote_args args of (as, ok) \<Rightarrow> (a # as, ok)))"

fun convert_args :: "Expression list \<Rightarrow> Type list \<Rightarrow> Expression list \<times> bool" where
  "convert_args (arg # args) (p # ps) =
     (let a = convert arg p
      in if \<not> isCompatibleWith (type_of a) p then (a # args, False)
         else (case convert_args args ps of (as, ok) \<Rightarrow> (a # as, ok)))"
| "convert_args args ps = (args, True)"

definition checkCall :: "Symbol \<Rightarrow> Expression list \<Rightarrow> Expression \<times> Diagnostic list" where
  "checkCall symbol args =
     (let t = sym_type symbol
      in if type_neq t Error then
           (case t of
              Function s i params \<Rightarrow>
                (let result = Scalar s i
                 in case params of
                      None \<Rightarrow>
                        (case promote_args args of
                           (args', ok) \<Rightarrow>
                             if ok then (Call symbol args' result, [])
                             else (Call symbol args' Error, [invalid_arguments]))
                    | Some ps \<Rightarrow>
                        if length ps \<noteq> length args
                        then (Call symbol args result, [invalid_arguments])
                        else (case convert_args args ps of
                                (args', ok) \<Rightarrow>
                                  if ok then (Call symbol args' result, [])
                                  else (Call symbol args' Error, [invalid_arguments])))
            | _ \<Rightarrow> (Call symbol args Error, [invalid_function]))
         else (Call symbol args Error, []))"

definition checkArray :: "Expression \<Rightarrow> Expression \<Rightarrow> (Expression \<times> Diagnostic list) option" where
  "checkArray left right =
     (let left' = promote left; t1 = type_of left'; t2 = type_of right
      in if type_neq t1 Error \<and> type_neq t2 Error then
           (if isPointer t1 \<and> isNumeric t2 \<and> type_neq t1 voidptr then
              (case deref_size t1 of
                 None \<Rightarrow> None
               | Some sz \<Rightarrow>
                   (case Type_deref t1 of
                      None \<Rightarrow> None
                    | Some d \<Rightarrow>
                        Some (Dereference (Add left' (scale right (ucast sz)) t1) d, [])))
            else Some (Dereference (Add left' right t1) Error, [invalid_operands ''[]'']))
         else Some (Dereference (Add left' right t1) Error, []))"

definition checkNot :: "Expression \<Rightarrow> Expression \<times> Diagnostic list" where
  "checkNot expr =
     (let e = promote expr; t = type_of e
      in if type_neq t Error then
           (if isPredicate t then (Not_e e integer, [])
            else (Not_e e Error, [invalid_operand ''!'']))
         else (Not_e e Error, []))"

definition checkNegate :: "Expression \<Rightarrow> Expression \<times> Diagnostic list" where
  "checkNegate expr =
     (let e = promote expr; t = type_of e
      in if type_neq t Error then
           (if isNumeric t then (Negate e t, [])
            else (Negate e Error, [invalid_operand ''-'']))
         else (Negate e Error, []))"

definition checkDereference :: "Expression \<Rightarrow> (Expression \<times> Diagnostic list) option" where
  "checkDereference expr =
     (let e = promote expr; t = type_of e
      in if type_neq t Error then
           (if isPointer t \<and> type_neq t voidptr then
              (case Type_deref t of
                 None \<Rightarrow> None
               | Some d \<Rightarrow> Some (Dereference e d, []))
            else Some (Dereference e Error, [invalid_operand ''*'']))
         else Some (Dereference e Error, []))"

definition checkAddress :: "Expression \<Rightarrow> Expression \<times> Diagnostic list" where
  "checkAddress expr =
     (let t = type_of expr
      in if type_neq t Error then
           (case t of
              Scalar s i \<Rightarrow>
                if lvalue expr then (Address expr (Scalar s (i + 1)), [])
                else (Address expr Error, [invalid_lvalue])
            | Array s i n \<Rightarrow>
                if lvalue expr then (Address expr (Scalar s (i + 1)), [])
                else (Address expr Error, [invalid_lvalue])
            | Function s i ps \<Rightarrow>
                if lvalue expr then (Address expr (Scalar s (i + 1)), [])
                else (Address expr Error, [invalid_lvalue])
            | Error \<Rightarrow> (Address expr Error, []))
         else (Address expr Error, []))"

text \<open>
  \<open>checkSizeof\<close>: an operand that is not of a predicate type is reported and the
  result is the literal 0; otherwise the result is the literal \<open>t.size()\<close>. The
  error type passes the test and reaches \<open>Type::size\<close>, whose assertion fails.
\<close>

definition checkSizeof :: "Expression \<Rightarrow> (Expression \<times> Diagnostic list) option" where
  "checkSizeof expr =
     (let t = type_of expr
      in if type_neq t Error \<and> \<not> isPredicate t
         then Some (Number_ul 0, [invalid_operand ''sizeof''])
         else (case Type_size t of
                 None \<Rightarrow> None
               | Some sz \<Rightarrow> Some (Number_ul sz, [])))"


text \<open>
  \<open>checkMultiplicative\<close>, \<open>checkRelational\<close>, \<open>checkEquality\<close> and
  \<open>checkLogical\<close> extend the left operand to the type of the right one, then the
  right operand to the new type of the left one, and return the result type; the
  model returns the two new operands with it.
\<close>

definition checkMultiplicative ::
  "Expression \<Rightarrow> Expression \<Rightarrow> string \<Rightarrow> Expression \<times> Expression \<times> Type \<times> Diagnostic list" where
  "checkMultiplicative left right op =
     (let left' = extend_e left (type_of right); t1 = type_of left';
          right' = extend_e right (type_of left'); t2 = type_of right'
      in if type_neq t1 Error \<and> type_neq t2 Error then
           (if isNumeric t1 \<and> isNumeric t2 then (left', right', t1, [])
            else (left', right', Error, [invalid_operands op]))
         else (left', right', Error, []))"

definition checkMultiply :: "Expression \<Rightarrow> Expression \<Rightarrow> Expression \<times> Diagnostic list" where
  "checkMultiply left right =
     (case checkMultiplicative left right ''*'' of (l, r, t, ds) \<Rightarrow> (Multiply l r t, ds))"

definition checkDivide :: "Expression \<Rightarrow> Expression \<Rightarrow> Expression \<times> Diagnostic list" where
  "checkDivide left right =
     (case checkMultiplicative left right ''/'' of (l, r, t, ds) \<Rightarrow> (Divide l r t, ds))"

definition checkRemainder :: "Expression \<Rightarrow> Expression \<Rightarrow> Expression \<times> Diagnostic list" where
  "checkRemainder left right =
     (case checkMultiplicative left right ''%'' of (l, r, t, ds) \<Rightarrow> (Remainder l r t, ds))"

definition checkAdd :: "Expression \<Rightarrow> Expression \<Rightarrow> (Expression \<times> Diagnostic list) option" where
  "checkAdd left right =
     (let t1 = type_of left; t2 = type_of right
      in if type_neq t1 Error \<and> type_neq t2 Error then
           (if isNumeric t1 \<and> isNumeric t2 then
              (let left' = extend_e left t2; t1' = type_of left';
                   right' = extend_e right t1'
               in Some (Add left' right' t1', []))
            else if isPointer t1 \<and> isNumeric t2 \<and> type_neq t1 voidptr then
              (let left' = promote left; t1' = type_of left'
               in case deref_size t1' of
                    None \<Rightarrow> None
                  | Some sz \<Rightarrow> Some (Add left' (scale right (ucast sz)) t1', []))
            else if isNumeric t1 \<and> isPointer t2 \<and> type_neq t2 voidptr then
              (let right' = promote right; t2' = type_of right'
               in case deref_size t2' of
                    None \<Rightarrow> None
                  | Some sz \<Rightarrow> Some (Add (scale left (ucast sz)) right' t2', []))
            else Some (Add left right Error, [invalid_operands ''+'']))
         else Some (Add left right Error, []))"

text \<open>
  \<open>checkSubtract\<close>. The first part is the body of the test for error operands:
  it yields the two operands, the values of the variables \<open>t1\<close> and \<open>t2\<close> at its
  end, the result type and the diagnostics. The second part builds the
  \<open>Subtract\<close> node and wraps it in a division when \<open>t1\<close> is a pointer type equal
  to \<open>t2\<close>.
\<close>

definition checkSubtract_operands ::
  "Expression \<Rightarrow> Expression \<Rightarrow>
   (Expression \<times> Expression \<times> Type \<times> Type \<times> Type \<times> Diagnostic list) option" where
  "checkSubtract_operands left right =
     (let t1 = type_of left; t2 = type_of right
      in if type_neq t1 Error \<and> type_neq t2 Error then
           (if isNumeric t1 \<and> isNumeric t2 then
              (let left' = extend_e left t2; t1' = type_of left';
                   right' = extend_e right t1'; t2' = type_of right'
               in Some (left', right', t1', t2', t1', []))
            else
              (let left' = promote left; t1' = type_of left'
               in if isPointer t1' \<and> isNumeric t2 \<and> type_neq t1' voidptr then
                    (case deref_size t1' of
                       None \<Rightarrow> None
                     | Some sz \<Rightarrow> Some (left', scale right (ucast sz), t1', t2, t1', []))
                  else
                    (let right' = promote right; t2' = type_of right'
                     in if isPointer t1' \<and> type_eq t1' t2' \<and> type_neq t1' voidptr
                        then Some (left', right', t1', t2', longint, [])
                        else Some (left', right', t1', t2', Error, [invalid_operands ''-'']))))
         else Some (left, right, t1, t2, Error, []))"

definition checkSubtract :: "Expression \<Rightarrow> Expression \<Rightarrow> (Expression \<times> Diagnostic list) option" where
  "checkSubtract left right =
     (case checkSubtract_operands left right of
        None \<Rightarrow> None
      | Some (left', right', t1, t2, result, ds) \<Rightarrow>
          (let expr = Subtract left' right' result
           in if isPointer t1 \<and> type_eq t1 t2 then
                (case deref_size t1 of
                   None \<Rightarrow> None
                 | Some sz \<Rightarrow> Some (Divide expr (Number_ul sz) longint, ds))
              else Some (expr, ds)))"

definition checkRelational ::
  "Expression \<Rightarrow> Expression \<Rightarrow> string \<Rightarrow> Expression \<times> Expression \<times> Type \<times> Diagnostic list" where
  "checkRelational left right op =
     (let left' = extend_e left (type_of right); t1 = type_of left';
          right' = extend_e right (type_of left'); t2 = type_of right'
      in if type_neq t1 Error \<and> type_neq t2 Error then
           (if type_eq t1 t2 \<and> isPredicate t1 then (left', right', integer, [])
            else (left', right', Error, [invalid_operands op]))
         else (left', right', Error, []))"

definition checkLessThan :: "Expression \<Rightarrow> Expression \<Rightarrow> Expression \<times> Diagnostic list" where
  "checkLessThan left right =
     (case checkRelational left right ''<'' of (l, r, t, ds) \<Rightarrow> (LessThan l r t, ds))"

definition checkGreaterThan :: "Expression \<Rightarrow> Expression \<Rightarrow> Expression \<times> Diagnostic list" where
  "checkGreaterThan left right =
     (case checkRelational left right ''>'' of (l, r, t, ds) \<Rightarrow> (GreaterThan l r t, ds))"

definition checkLessOrEqual :: "Expression \<Rightarrow> Expression \<Rightarrow> Expression \<times> Diagnostic list" where
  "checkLessOrEqual left right =
     (case checkRelational left right ''<='' of (l, r, t, ds) \<Rightarrow> (LessOrEqual l r t, ds))"

definition checkGreaterOrEqual :: "Expression \<Rightarrow> Expression \<Rightarrow> Expression \<times> Diagnostic list" where
  "checkGreaterOrEqual left right =
     (case checkRelational left right ''>='' of (l, r, t, ds) \<Rightarrow> (GreaterOrEqual l r t, ds))"

definition checkEquality ::
  "Expression \<Rightarrow> Expression \<Rightarrow> string \<Rightarrow> Expression \<times> Expression \<times> Type \<times> Diagnostic list" where
  "checkEquality left right op =
     (let left' = extend_e left (type_of right); t1 = type_of left';
          right' = extend_e right (type_of left'); t2 = type_of right'
      in if type_neq t1 Error \<and> type_neq t2 Error then
           (if isCompatibleWith t1 t2 then (left', right', integer, [])
            else (left', right', Error, [invalid_operands op]))
         else (left', right', Error, []))"

definition checkEqual :: "Expression \<Rightarrow> Expression \<Rightarrow> Expression \<times> Diagnostic list" where
  "checkEqual left right =
     (case checkEquality left right ''=='' of (l, r, t, ds) \<Rightarrow> (Equal l r t, ds))"

definition checkNotEqual :: "Expression \<Rightarrow> Expression \<Rightarrow> Expression \<times> Diagnostic list" where
  "checkNotEqual left right =
     (case checkEquality left right ''!='' of (l, r, t, ds) \<Rightarrow> (NotEqual l r t, ds))"

definition checkLogical ::
  "Expression \<Rightarrow> Expression \<Rightarrow> string \<Rightarrow> Expression \<times> Expression \<times> Type \<times> Diagnostic list" where
  "checkLogical left right op =
     (let left' = extend_e left (type_of right); t1 = type_of left';
          right' = extend_e right (type_of left'); t2 = type_of right'
      in if type_neq t1 Error \<and> type_neq t2 Error then
           (if isPredicate t1 \<and> isPredicate t2 then (left', right', integer, [])
            else (left', right', Error, [invalid_operands op]))
         else (left', right', Error, []))"

definition checkLogicalAnd :: "Expression \<Rightarrow> Expression \<Rightarrow> Expression \<times> Diagnostic list" where
  "checkLogicalAnd left right =
     (case checkLogical left right ''&&'' of (l, r, t, ds) \<Rightarrow> (LogicalAnd l r t, ds))"

definition checkLogicalOr :: "Expression \<Rightarrow> Expression \<Rightarrow> Expression \<times> Diagnostic list" where
  "checkLogicalOr left right =
     (case checkLogical left right ''||'' of (l, r, t, ds) \<Rightarrow> (LogicalOr l r t, ds))"

definition checkAssignment :: "Expression \<Rightarrow> Expression \<Rightarrow> Statement \<times> Diagnostic list" where
  "checkAssignment left right =
     (let t1 = type_of left; right' = convert right (type_of left); t2 = type_of right'
      in (Assignment left right',
          (if type_neq t1 Error \<and> type_neq t2 Error then
             (if \<not> lvalue left then [invalid_lvalue]
              else if \<not> isCompatibleWith t1 t2 then [invalid_operands ''='']
              else [])
           else [])))"

definition checkReturn :: "Expression \<Rightarrow> Type \<Rightarrow> Expression \<times> Diagnostic list" where
  "checkReturn expr ty =
     (let e = convert expr ty; t = type_of e
      in (e, if type_neq t Error \<and> \<not> isCompatibleWith t ty then [invalid_return] else []))"

definition checkTest :: "Expression \<Rightarrow> Expression \<times> Diagnostic list" where
  "checkTest expr =
     (let e = promote expr; t = type_of e
      in (e, if type_neq t Error \<and> \<not> isPredicate t then [invalid_test] else []))"


section \<open>Storage allocation (allocator.cpp)\<close>

text \<open>
  Offsets are \<open>int\<close>: integers with the conversion to 32 bits written out.
  \<open>offset -= symbol->type().size()\<close> subtracts an \<open>unsigned long\<close>, so the
  offset is converted to 64 bits, the difference is taken modulo \<open>2 ^ 64\<close> and
  the result is converted back to \<open>int\<close>.
\<close>

definition to_int32 :: "int \<Rightarrow> int" where
  "to_int32 x = (x + 2 ^ 31) mod 2 ^ 32 - 2 ^ 31"

definition sub_size :: "int \<Rightarrow> 64 word \<Rightarrow> int" where
  "sub_size offset sz = to_int32 ((offset - uint sz) mod 2 ^ 64)"

text \<open>
  The first loop of \<open>Block::allocate\<close>: every symbol of the block whose offset
  is still 0 gets the next lower offset. The assertion of \<open>Type::size\<close> may fail.
\<close>

fun allocate_symbols :: "Symbol list \<Rightarrow> int \<Rightarrow> (Symbol list \<times> int) option" where
  "allocate_symbols [] offset = Some ([], offset)"
| "allocate_symbols (symbol # symbols) offset =
     (if sym_offset symbol = 0 then
        (case Type_size (sym_type symbol) of
           None \<Rightarrow> None
         | Some sz \<Rightarrow>
             (case allocate_symbols symbols (sub_size offset sz) of
                None \<Rightarrow> None
              | Some (symbols', offset') \<Rightarrow>
                  Some (symbol\<lparr>sym_offset := sub_size offset sz\<rparr> # symbols', offset')))
      else
        (case allocate_symbols symbols offset of
           None \<Rightarrow> None
         | Some (symbols', offset') \<Rightarrow> Some (symbol # symbols', offset')))"

text \<open>
  \<open>allocate\<close> on statements, with the second loop of \<open>Block::allocate\<close> as
  \<open>allocate_stmts\<close>: every statement of the block starts from \<open>saved\<close>, and the
  running offset is the minimum so far. \<open>If::allocate\<close> gives the else branch a
  copy of the offset on entry.

  Modelled from the spec: the default \<open>Statement::allocate\<close> (Tree.cpp is not among
  the sources), which the statements without nested statements inherit, allocates
  nothing.
\<close>

fun allocate :: "Statement \<Rightarrow> int \<Rightarrow> (Statement \<times> int) option"
  and allocate_stmts :: "Statement list \<Rightarrow> int \<Rightarrow> int \<Rightarrow> (Statement list \<times> int) option" where
  "allocate (Block symbols stmts) offset =
     (case allocate_symbols symbols offset of
        None \<Rightarrow> None
      | Some (symbols', saved) \<Rightarrow>
          (case allocate_stmts stmts saved saved of
             None \<Rightarrow> None
           | Some (stmts', offset') \<Rightarrow> Some (Block symbols' stmts', offset')))"
| "allocate (While e stmt) offset =
     (case allocate stmt offset of
        None \<Rightarrow> None
      | Some (stmt', offset') \<Rightarrow> Some (While e stmt', offset'))"
| "allocate (For init e incr stmt) offset =
     (case allocate stmt offset of
        None \<Rightarrow> None
      | Some (stmt', offset') \<Rightarrow> Some (For init e incr stmt', offset'))"
| "allocate (If_s e thenStmt elseStmt) offset =
     (case allocate thenStmt offset of
        None \<Rightarrow> None
      | Some (thenStmt', offset') \<Rightarrow>
          (case elseStmt of
             None \<Rightarrow> Some (If_s e thenStmt' None, offset')
           | Some els \<Rightarrow>
               (case allocate els offset of
                  None \<Rightarrow> None
                | Some (els', temp) \<Rightarrow>
                    Some (If_s e thenStmt' (Some els'), min offset' temp))))"
| "allocate (Simple e) offset = Some (Simple e, offset)"
| "allocate (Assignment l r) offset = Some (Assignment l r, offset)"
| "allocate (Return e) offset = Some (Return e, offset)"
| "allocate_stmts [] saved offset = Some ([], offset)"
| "allocate_stmts (stmt # stmts) saved offset =
     (case allocate stmt saved of
        None \<Rightarrow> None
      | Some (stmt', temp) \<Rightarrow>
          (case allocate_stmts stmts saved (min offset temp) of
             None \<Rightarrow> None
           | Some (stmts', offset') \<Rightarrow> Some (stmt' # stmts', offset')))"

text \<open>
  A function definition: the symbol of the function and its body, a block, given
  by the symbols of the function's scope (parameters first, then the locals of the
  outermost block) and its statements.
\<close>

record FunctionNode =
  fn_id :: Symbol
  fn_decls :: "Symbol list"
  fn_stmts :: "Statement list"

text \<open>
  \<open>Function::allocate\<close>. The parameters beyond the sixth get increasing offsets
  from the given one, in steps of \<open>SIZEOF_PARAM\<close>; then the offset restarts at 0
  and the first six parameters get decreasing offsets by their promoted sizes
  (\<open>Function_parameters\<close> is the function up to here); then the body is
  allocated. \<open>None\<close> stands for a failed assertion or for an access outside the
  vector of symbols.
\<close>

definition add_size :: "int \<Rightarrow> 64 word \<Rightarrow> int" where
  "add_size offset sz = to_int32 ((offset + uint sz) mod 2 ^ 64)"

fun assign_stack :: "nat list \<Rightarrow> Type list \<Rightarrow> Symbol list \<Rightarrow> int \<Rightarrow> (Symbol list \<times> int) option" where
  "assign_stack [] params symbols offset = Some (symbols, offset)"
| "assign_stack (i # is) params symbols offset =
     (if i < length symbols then
        (case (if SIZEOF_PARAM \<noteq> 0 then Some (word_of_int SIZEOF_PARAM)
               else Type_size (Type_promote (params ! i))) of
           None \<Rightarrow> None
         | Some sz \<Rightarrow>
             assign_stack is params (symbols[i := (symbols ! i)\<lparr>sym_offset := offset\<rparr>])
               (add_size offset sz))
      else None)"

fun assign_registers :: "nat list \<Rightarrow> Type list \<Rightarrow> Symbol list \<Rightarrow> int \<Rightarrow> (Symbol list \<times> int) option" where
  "assign_registers [] params symbols offset = Some (symbols, offset)"
| "assign_registers (i # is) params symbols offset =
     (if i < length params then
        (case Type_size (Type_promote (params ! i)) of
           None \<Rightarrow> None
         | Some sz \<Rightarrow>
             if i < length symbols then
               assign_registers is params
                 (symbols[i := (symbols ! i)\<lparr>sym_offset := sub_size offset sz\<rparr>])
                 (sub_size offset sz)
             else None)
      else Some (symbols, offset))"

definition Function_parameters :: "FunctionNode \<Rightarrow> int \<Rightarrow> (Symbol list \<times> int) option" where
  "Function_parameters fn offset =
     (case sym_type (fn_id fn) of
        Function s i (Some params) \<Rightarrow>
          (case assign_stack [NUM_PARAM_REGS ..< length params] params (fn_decls fn) offset of
             None \<Rightarrow> None
           | Some (symbols, offset') \<Rightarrow>
               assign_registers [0 ..< NUM_PARAM_REGS] params symbols 0)
      | _ \<Rightarrow> None)"

definition Function_allocate :: "FunctionNode \<Rightarrow> int \<Rightarrow> (FunctionNode \<times> int) option" where
  "Function_allocate fn offset =
     (case Function_parameters fn offset of
        None \<Rightarrow> None
      | Some (symbols, offset') \<Rightarrow>
          (case allocate (Block symbols (fn_stmts fn)) offset' of
             Some (Block symbols' stmts', offset'') \<Rightarrow>
               Some (fn\<lparr>fn_decls := symbols', fn_stmts := stmts'\<rparr>, offset'')
           | _ \<Rightarrow> None))"

text \<open>
  The frame size (generator.cpp). The offset of the allocator is the static
  variable \<open>offset\<close> of the generator, and the generation of the body goes on
  lowering it: \<open>load\<close>, when the register it is to fill holds another
  expression, spills that expression with
  \<open>unsigned size = reg->_node->type().size(); offset -= size;\<close>, a subtraction
  on \<open>unsigned\<close> whose result is converted back to \<open>int\<close>. No other line of the
  generator writes \<open>offset\<close> between the allocation and the end of the body, so
  the generation of a body acts on the offset as the list of the sizes it spills,
  in order: \<open>spills\<close> below. For \<open>return 0;\<close> the list is empty, since the
  only \<open>load\<close> finds its register free. For \<open>return (a + b) + g();\<close> with \<open>a\<close>
  and \<open>b\<close> of type \<open>int\<close> it is \<open>[4]\<close>: the sum sits in a register when
  \<open>Call::generate\<close> empties the registers.

  \<open>align\<close> is the function of that name on \<open>int\<close>: a remainder is 0 in C++
  exactly when it is 0 here, and \<open>abs\<close> is applied to no multiple of 16, so not
  to the least \<open>int\<close>. \<open>frame_size\<close> is what \<open>Function::generate\<close> prints as
  \<open>f.size\<close>: it starts the allocation at \<open>2 * SIZEOF_REG\<close>, generates the body,
  then computes \<open>offset -= align(offset - param_offset)\<close> and prints \<open>-offset\<close>.
  These three are operations on \<open>int\<close>; where a result leaves the range of
  \<open>int\<close> it is written as the target computes it, wrapped to 32 bits.
\<close>

definition spill :: "int \<Rightarrow> 32 word \<Rightarrow> int" where
  "spill offset sz = to_int32 ((offset - uint sz) mod 2 ^ 32)"

definition align :: "int \<Rightarrow> int" where
  "align offset =
     (if offset mod STACK_ALIGNMENT = 0 then 0
      else STACK_ALIGNMENT - (\<bar>offset\<bar> mod STACK_ALIGNMENT))"

definition frame_size :: "FunctionNode \<Rightarrow> 32 word list \<Rightarrow> int option" where
  "frame_size fn spills =
     (let param_offset = 2 * SIZEOF_REG
      in case Function_allocate fn param_offset of
           None \<Rightarrow> None
         | Some (fn', offset) \<Rightarrow>
             (let spilled = foldl spill offset spills;
                  aligned = to_int32 (spilled - align (to_int32 (spilled - param_offset)))
              in Some (to_int32 (- aligned))))"

text \<open>
  The sizes the claims speak of. \<open>spilled_bytes\<close> adds up the sizes spilled
  by the generation of the body; \<open>own_size\<close> adds up the symbols a block
  allocates (those whose offset is 0 on entry); \<open>path_sizes\<close> lists, for every path
  from a statement down to a statement without nested statements, the sum of what
  the blocks on the path allocate; \<open>depth\<close> is the largest such sum; \<open>sized\<close> says
  that every symbol to allocate has a size (no function and no error type).
\<close>

definition spilled_bytes :: "32 word list \<Rightarrow> nat" where
  "spilled_bytes spills = sum_list (map unat spills)"

fun own_size :: "Symbol list \<Rightarrow> nat" where
  "own_size [] = 0"
| "own_size (symbol # symbols) =
     (if sym_offset symbol = 0
      then (case Type_size (sym_type symbol) of None \<Rightarrow> 0 | Some sz \<Rightarrow> unat sz)
      else 0) + own_size symbols"

fun path_sizes :: "Statement \<Rightarrow> nat list"
  and path_sizes_list :: "Statement list \<Rightarrow> nat list" where
  "path_sizes (Block symbols stmts) =
     (if stmts = [] then [own_size symbols]
      else map (\<lambda>p. own_size symbols + p) (path_sizes_list stmts))"
| "path_sizes (While e stmt) = path_sizes stmt"
| "path_sizes (For init e incr stmt) = path_sizes stmt"
| "path_sizes (If_s e thenStmt None) = path_sizes thenStmt"
| "path_sizes (If_s e thenStmt (Some els)) = path_sizes thenStmt @ path_sizes els"
| "path_sizes (Simple e) = [0]"
| "path_sizes (Assignment l r) = [0]"
| "path_sizes (Return e) = [0]"
| "path_sizes_list [] = []"
| "path_sizes_list (stmt # stmts) = path_sizes stmt @ path_sizes_list stmts"

fun depth :: "Statement \<Rightarrow> nat"
  and depth_list :: "Statement list \<Rightarrow> nat" where
  "depth (Block symbols stmts) = own_size symbols + depth_list stmts"
| "depth (While e stmt) = depth stmt"
| "depth (For init e incr stmt) = depth stmt"
| "depth (If_s e thenStmt None) = depth thenStmt"
| "depth (If_s e thenStmt (Some els)) = max (depth thenStmt) (depth els)"
| "depth (Simple e) = 0"
| "depth (Assignment l r) = 0"
| "depth (Return e) = 0"
| "depth_list [] = 0"
| "depth_list (stmt # stmts) = max (depth stmt) (depth_list stmts)"

definition sized_symbols :: "Symbol list \<Rightarrow> bool" where
  "sized_symbols symbols =
     list_all (\<lambda>symbol. sym_offset symbol \<noteq> 0 \<or> Type_size (sym_type symbol) \<noteq> None) symbols"

fun sized :: "Statement \<Rightarrow> bool"
  and sized_list :: "Statement list \<Rightarrow> bool" where
  "sized (Block symbols stmts) = (sized_symbols symbols \<and> sized_list stmts)"
| "sized (While e stmt) = sized stmt"
| "sized (For init e incr stmt) = sized stmt"
| "sized (If_s e thenStmt None) = sized thenStmt"
| "sized (If_s e thenStmt (Some els)) = (sized thenStmt \<and> sized els)"
| "sized (Simple e) = True"
| "sized (Assignment l r) = True"
| "sized (Return e) = True"
| "sized_list [] = True"
| "sized_list (stmt # stmts) = (sized stmt \<and> sized_list stmts)"


section \<open>Labels and the string pool (Label.cpp, generator.cpp)\<close>

text \<open>
  A label holds the number it was given. The generator's state, as far as labels
  go, is the static counter of the class \<open>Label\<close> (an \<open>unsigned\<close>) and the map
  from the bytes of a string literal to its label.
\<close>

record Label =
  number :: "32 word"

record Generator =
  counter :: "32 word"
  stringMap :: "(string \<times> Label) list"

text \<open>\<open>Label::Label\<close>: \<open>_number = _counter++\<close>.\<close>

definition Label_new :: "32 word \<Rightarrow> Label \<times> 32 word" where
  "Label_new c = (\<lparr>number = c\<rparr>, c + 1)"

text \<open>
  \<open>String::operand\<close>. For a new key it declares \<open>Label label\<close> and stores it with
  \<open>stringMap[key] = label\<close>; the subscript first inserts a default-constructed
  label, so the counter advances twice and the second number is overwritten. For a
  known key the stored label is copied, and no label is constructed.
\<close>

definition String_operand :: "string \<Rightarrow> Generator \<Rightarrow> Label \<times> Generator" where
  "String_operand key g =
     (case map_of (stringMap g) key of
        None \<Rightarrow>
          (case Label_new (counter g) of
             (label, c1) \<Rightarrow>
               (case Label_new c1 of
                  (mapped, c2) \<Rightarrow>
                    (label, g\<lparr>counter := c2, stringMap := stringMap g @ [(key, label)]\<rparr>)))
      | Some label \<Rightarrow> (label, g))"

text \<open>
  One compilation performs, in some order, declarations of labels (two each in
  the \<open>generate\<close> of \<open>While\<close>, \<open>For\<close>, \<open>If\<close>, \<open>LogicalAnd\<close> and \<open>LogicalOr\<close>) and calls of
  \<open>String::operand\<close>. \<open>run\<close> performs such a sequence and returns the labels
  declared, in order, and the final state, whose map holds the labels of the
  strings. \<open>constructions\<close> counts the labels constructed, given the keys already in
  the map.
\<close>

datatype LabelEvent = NewLabel | StringOperand string

fun run :: "LabelEvent list \<Rightarrow> Generator \<Rightarrow> Label list \<times> Generator" where
  "run [] g = ([], g)"
| "run (NewLabel # es) g =
     (case Label_new (counter g) of
        (label, c) \<Rightarrow>
          (case run es (g\<lparr>counter := c\<rparr>) of (labels, g') \<Rightarrow> (label # labels, g')))"
| "run (StringOperand key # es) g =
     (case String_operand key g of (label, g1) \<Rightarrow> run es g1)"

fun constructions :: "LabelEvent list \<Rightarrow> string list \<Rightarrow> nat" where
  "constructions [] keys = 0"
| "constructions (NewLabel # es) keys = 1 + constructions es keys"
| "constructions (StringOperand key # es) keys =
     (if key \<in> set keys then constructions es keys
      else 2 + constructions es (keys @ [key]))"

definition initial :: Generator where
  "initial = \<lparr>counter = 0, stringMap = []\<rparr>"

text \<open>
  The same run with a counter that does not wrap, on natural numbers; the run above
  is its image under the conversion to 32 bits.
\<close>

fun ideal_run :: "LabelEvent list \<Rightarrow> nat \<Rightarrow> (string \<times> nat) list \<Rightarrow> nat list \<times> nat \<times> (string \<times> nat) list" where
  "ideal_run [] m mp = ([], m, mp)"
| "ideal_run (NewLabel # es) m mp =
     (case ideal_run es (m + 1) mp of (ns, r) \<Rightarrow> (m # ns, r))"
| "ideal_run (StringOperand key # es) m mp =
     (case map_of mp key of
        None \<Rightarrow> ideal_run es (m + 2) (mp @ [(key, m)])
      | Some n \<Rightarrow> ideal_run es m mp)"

definition lab :: "nat \<Rightarrow> Label" where
  "lab n = \<lparr>number = of_nat n\<rparr>"

definition labmap :: "(string \<times> nat) list \<Rightarrow> (string \<times> Label) list" where
  "labmap mp = map (\<lambda>(k, n). (k, lab n)) mp"


section \<open>The driver (parser.cpp) and the emission of globals (generator.cpp)\<close>

text \<open>
  What the compiler writes to standard output, item by item: the text
  \<open>Function::generate\<close> writes for one function, a \<open>.comm\<close> directive, the \<open>.data\<close>
  directive, and an \<open>.asciz\<close> line with its label. The compiler's state is the
  outermost scope, the error counter, the state of the labels and what has been
  written so far.
\<close>

datatype Asm =
    FunctionCode string
  | Comm string "64 word"
  | DataDirective
  | Asciz Label string

record Compiler =
  outermost :: "Symbol list"
  numerrors :: nat
  generator :: Generator
  emitted :: "Asm list"

text \<open>
  Modelled from the spec: Scope.h of this phase is not among the sources; \<open>find\<close>
  yields the first symbol of that name in the scope, \<open>insert\<close> appends, \<open>remove\<close>
  deletes the symbol of that name. A new symbol has offset 0.
\<close>

definition Scope_find :: "string \<Rightarrow> Symbol list \<Rightarrow> Symbol option" where
  "Scope_find name symbols = find (\<lambda>symbol. sym_name symbol = name) symbols"

definition Scope_insert :: "Symbol \<Rightarrow> Symbol list \<Rightarrow> Symbol list" where
  "Scope_insert symbol symbols = symbols @ [symbol]"

definition Scope_remove :: "string \<Rightarrow> Symbol list \<Rightarrow> Symbol list" where
  "Scope_remove name symbols = filter (\<lambda>symbol. sym_name symbol \<noteq> name) symbols"

definition Symbol_new :: "string \<Rightarrow> Type \<Rightarrow> Symbol" where
  "Symbol_new name ty = \<lparr>sym_name = name, sym_type = ty, sym_offset = 0\<rparr>"

text \<open>
  \<open>defineFunction\<close>, \<open>declareFunction\<close> and \<open>declareVariable\<close> (checker.cpp) on
  the scope they work on; each returns the new scope and the diagnostics it
  reported. \<open>declareVariable\<close> takes a flag for \<open>outermost == toplevel\<close>.
\<close>

fun is_void_object :: "Type \<Rightarrow> bool" where
  "is_void_object (Scalar s i) = (s = VOID_t \<and> i = 0)"
| "is_void_object (Array s i n) = (s = VOID_t \<and> i = 0)"
| "is_void_object (Function s i ps) = (s = VOID_t \<and> i = 0)"
| "is_void_object Error = False"

fun has_parameters :: "Type \<Rightarrow> bool" where
  "has_parameters (Function s i (Some ps)) = True"
| "has_parameters t = False"

definition defineFunction :: "string \<Rightarrow> Type \<Rightarrow> Symbol list \<Rightarrow> Symbol list \<times> Diagnostic list" where
  "defineFunction name ty scope =
     (case Scope_find name scope of
        Some symbol \<Rightarrow>
          (Scope_insert (Symbol_new name ty) (Scope_remove name scope),
           (if isFunction (sym_type symbol) \<and> has_parameters (sym_type symbol)
            then [redefined name]
            else if type_neq ty (sym_type symbol) then [conflicting name]
            else []))
      | None \<Rightarrow> (Scope_insert (Symbol_new name ty) scope, []))"

definition declareFunction :: "string \<Rightarrow> Type \<Rightarrow> Symbol list \<Rightarrow> Symbol list \<times> Diagnostic list" where
  "declareFunction name ty scope =
     (case Scope_find name scope of
        None \<Rightarrow> (Scope_insert (Symbol_new name ty) scope, [])
      | Some symbol \<Rightarrow>
          (scope, if type_neq ty (sym_type symbol) then [conflicting name] else []))"

definition declareVariable ::
  "string \<Rightarrow> Type \<Rightarrow> bool \<Rightarrow> Symbol list \<Rightarrow> Symbol list \<times> Diagnostic list" where
  "declareVariable name ty is_outermost toplevel =
     (case Scope_find name toplevel of
        None \<Rightarrow>
          (Scope_insert (Symbol_new name ty) toplevel,
           if is_void_object ty then [void_object name] else [])
      | Some symbol \<Rightarrow>
          (toplevel,
           if \<not> is_outermost then [redeclared name]
           else if type_neq ty (sym_type symbol) then [conflicting name]
           else []))"

text \<open>
  The parser is represented by what it hands on: a global declaration is the list
  of its declarators; a function definition is its name and type, the diagnostics
  reported while its parameters and body were parsed, the symbols and statements
  of the body, and the label declarations and string operands its generation
  performs. \<open>globalOrFunction\<close> defines the function and generates it if the error
  counter is 0; \<open>main\<close> loops over the input and ends with \<open>generateGlobals\<close>,
  which writes a \<open>.comm\<close> directive for every symbol of the outermost scope that
  is not a function, then \<open>.data\<close>, then one \<open>.asciz\<close> line for every entry of
  \<open>stringMap\<close>. That is a \<open>std::map\<close> from \<open>std::string\<close>, and the loop over it
  goes by increasing key: strings compare byte by byte, bytes as unsigned values, a
  proper prefix before its extensions, which is the order of \<open>string\<close> here.
\<close>

datatype GlobalDeclarator =
    Variable string Type
  | FunctionDeclaration string Type

datatype GlobalOrFunction =
    Globals "GlobalDeclarator list"
  | Definition string Type "Diagnostic list" "Symbol list" "Statement list" "LabelEvent list"

fun globalDeclarator :: "GlobalDeclarator \<Rightarrow> Compiler \<Rightarrow> Compiler" where
  "globalDeclarator (Variable name ty) st =
     (case declareVariable name ty True (outermost st) of
        (scope, ds) \<Rightarrow> st\<lparr>outermost := scope, numerrors := numerrors st + length ds\<rparr>)"
| "globalDeclarator (FunctionDeclaration name ty) st =
     (case declareFunction name ty (outermost st) of
        (scope, ds) \<Rightarrow> st\<lparr>outermost := scope, numerrors := numerrors st + length ds\<rparr>)"

definition Function_generate ::
  "FunctionNode \<Rightarrow> LabelEvent list \<Rightarrow> Generator \<Rightarrow> (Asm list \<times> Generator) option" where
  "Function_generate fn events g =
     (case Function_allocate fn (2 * SIZEOF_REG) of
        None \<Rightarrow> None
      | Some (fn', offset) \<Rightarrow>
          Some ([FunctionCode (sym_name (fn_id fn))], snd (run events g)))"

fun globalOrFunction :: "GlobalOrFunction \<Rightarrow> Compiler \<Rightarrow> Compiler option" where
  "globalOrFunction (Globals ds) st = Some (fold globalDeclarator ds st)"
| "globalOrFunction (Definition name ty diags decls stmts events) st =
     (case defineFunction name ty (outermost st) of
        (scope, ds) \<Rightarrow>
          (let st1 = st\<lparr>outermost := scope,
                         numerrors := numerrors st + length ds + length diags\<rparr>
           in if numerrors st1 = 0 then
                (case Function_generate
                        \<lparr>fn_id = Symbol_new name ty, fn_decls = decls, fn_stmts = stmts\<rparr>
                        events (generator st1) of
                   None \<Rightarrow> None
                 | Some (code, g) \<Rightarrow> Some (st1\<lparr>generator := g, emitted := emitted st1 @ code\<rparr>))
              else Some st1))"

fun translation_unit :: "GlobalOrFunction list \<Rightarrow> Compiler \<Rightarrow> Compiler option" where
  "translation_unit [] st = Some st"
| "translation_unit (item # items) st =
     (case globalOrFunction item st of
        None \<Rightarrow> None
      | Some st' \<Rightarrow> translation_unit items st')"

fun comm_directives :: "Symbol list \<Rightarrow> Asm list option" where
  "comm_directives [] = Some []"
| "comm_directives (symbol # symbols) =
     (if \<not> isFunction (sym_type symbol) then
        (case Type_size (sym_type symbol) of
           None \<Rightarrow> None
         | Some sz \<Rightarrow>
             (case comm_directives symbols of
                None \<Rightarrow> None
              | Some cs \<Rightarrow> Some (Comm (sym_name symbol) sz # cs)))
      else comm_directives symbols)"

definition generateGlobals :: "Symbol list \<Rightarrow> Generator \<Rightarrow> Asm list option" where
  "generateGlobals symbols g =
     (case comm_directives symbols of
        None \<Rightarrow> None
      | Some cs \<Rightarrow>
          Some (cs @ [DataDirective]
                @ map (\<lambda>(key, label). Asciz label key) (sort_key fst (stringMap g))))"

definition main :: "GlobalOrFunction list \<Rightarrow> (nat \<times> Asm list) option" where
  "main items =
     (case translation_unit items
             \<lparr>outermost = [], numerrors = 0, generator = initial, emitted = []\<rparr> of
        None \<Rightarrow> None
      | Some st \<Rightarrow>
          (case generateGlobals (outermost st) (generator st) of
             None \<Rightarrow> None
           | Some globals \<Rightarrow> Some (numerrors st, emitted st @ globals)))"


section \<open>Properties of type equality\<close>

lemma type_eq_refl: "type_eq a a"
  by (induction a) (auto simp: list_all2_same split: option.splits)

lemma type_eq_complete_trans:
  "complete b \<Longrightarrow> type_eq a b \<Longrightarrow> type_eq b c \<Longrightarrow> type_eq a c"
proof (induction b arbitrary: a c)
  case Error
  then show ?case by (cases a; cases c; simp)
next
  case (Scalar s i)
  then show ?case by (cases a; cases c; simp)
next
  case (Array s i n)
  then show ?case by (cases a; cases c; simp)
next
  case (Function s i ps)
  from Function.prems(1) obtain pb where ps: "ps = Some pb" and cb: "list_all complete pb"
    by (cases ps) auto
  from Function.prems(2) ps obtain pa where a: "a = Function s i pa"
    by (cases a) (auto split: if_splits)
  from Function.prems(3) ps obtain pc where c: "c = Function s i pc"
    by (cases c) (auto split: if_splits)
  show ?case
  proof (cases pa)
    case None
    then show ?thesis using a c by simp
  next
    case (Some xs)
    note pa = this
    show ?thesis
    proof (cases pc)
      case None
      then show ?thesis using a c by (simp split: option.splits)
    next
      case (Some zs)
      have ab: "list_all2 type_eq xs pb" using Function.prems(2) a ps pa by simp
      have bc: "list_all2 type_eq pb zs" using Function.prems(3) c ps Some by simp
      have "list_all2 type_eq xs zs"
      proof (rule list_all2_all_nthI)
        show "length xs = length zs"
          using ab bc by (simp add: list_all2_lengthD)
      next
        fix n assume n: "n < length xs"
        then have nb: "n < length pb" using ab by (simp add: list_all2_lengthD)
        have "complete (pb ! n)" using cb nb by (simp add: list_all_length)
        moreover have "type_eq (xs ! n) (pb ! n)" using ab n by (simp add: list_all2_nthD)
        moreover have "type_eq (pb ! n) (zs ! n)" using bc nb by (simp add: list_all2_nthD)
        moreover have "pb ! n \<in> set pb" using nb by simp
        ultimately show "type_eq (xs ! n) (zs ! n)"
          using Function.IH ps by (auto simp: option.set_sel)
      qed
      then show ?thesis using a c pa Some by simp
    qed
  qed
qed

lemma type_eq_complete_iff:
  "complete a \<Longrightarrow> complete b \<Longrightarrow> type_eq a b \<longleftrightarrow> a = b"
proof (induction a arbitrary: b)
  case Error
  then show ?case by (cases b) simp_all
next
  case (Scalar s i)
  then show ?case by (cases b) auto
next
  case (Array s i n)
  then show ?case by (cases b) auto
next
  case (Function s i ps)
  from Function.prems(1) obtain pa where ps: "ps = Some pa" and ca: "list_all complete pa"
    by (cases ps) auto
  show ?case
  proof (cases b)
    case (Function s' i' qs)
    with Function.prems(2) obtain pb where qs: "qs = Some pb" and cb: "list_all complete pb"
      by (cases qs) auto
    have "list_all2 type_eq pa pb \<longleftrightarrow> pa = pb"
    proof
      assume h: "list_all2 type_eq pa pb"
      show "pa = pb"
      proof (rule nth_equalityI)
        show "length pa = length pb" using h by (simp add: list_all2_lengthD)
      next
        fix n assume n: "n < length pa"
        then have nb: "n < length pb" using h by (simp add: list_all2_lengthD)
        have "pa ! n \<in> set pa" using n by simp
        moreover have "complete (pa ! n)" using ca n by (simp add: list_all_length)
        moreover have "complete (pb ! n)" using cb nb by (simp add: list_all_length)
        moreover have "type_eq (pa ! n) (pb ! n)" using h n by (simp add: list_all2_nthD)
        ultimately show "pa ! n = pb ! n"
          using Function.IH ps by (auto simp: option.set_sel)
      qed
    next
      assume "pa = pb"
      then show "list_all2 type_eq pa pb"
        by (simp add: list_all2_same type_eq_refl)
    qed
    then show ?thesis using Function ps qs by auto
  qed simp_all
qed


text \<open>
  Claim C6, as stated: type equality is transitive. It is not: a function type
  with a null parameter list equals both \<open>int f(int)\<close> and \<open>int f(char)\<close>, which
  are unequal.
\<close>

theorem C6_transitivity_counterexample:
  "type_eq (Function INT_t 0 (Some [Scalar INT_t 0])) (Function INT_t 0 None)
   \<and> type_eq (Function INT_t 0 None) (Function INT_t 0 (Some [Scalar CHAR_t 0]))
   \<and> \<not> type_eq (Function INT_t 0 (Some [Scalar INT_t 0]))
               (Function INT_t 0 (Some [Scalar CHAR_t 0]))"
  by simp

text \<open>
  Claim C6, amended: type equality is transitive through every middle type that
  holds no null parameter list; on types without null parameter lists it is
  equality of values, so two function types with distinct present parameter lists
  of such types are unequal; and a function type whose parameter list is null equals
  every function type of the same specifier and indirection, on either side.
\<close>

theorem C6_type_eq_amended:
  "(complete b \<longrightarrow> type_eq a b \<longrightarrow> type_eq b c \<longrightarrow> type_eq a c)
   \<and> (list_all complete ps \<longrightarrow> list_all complete qs \<longrightarrow> ps \<noteq> qs \<longrightarrow>
        \<not> type_eq (Function s i (Some ps)) (Function s' i' (Some qs)))
   \<and> type_eq (Function s i None) (Function s i rs)
   \<and> type_eq (Function s i rs) (Function s i None)"
proof (intro conjI impI)
  assume "complete b" "type_eq a b" "type_eq b c"
  then show "type_eq a c" by (rule type_eq_complete_trans)
next
  assume h: "list_all complete ps" "list_all complete qs" "ps \<noteq> qs"
  have "complete (Function s i (Some ps))" "complete (Function s' i' (Some qs))"
    using h by simp_all
  then have "type_eq (Function s i (Some ps)) (Function s' i' (Some qs))
             \<longleftrightarrow> Function s i (Some ps) = Function s' i' (Some qs)"
    by (rule type_eq_complete_iff)
  then show "\<not> type_eq (Function s i (Some ps)) (Function s' i' (Some qs))"
    using h(3) by simp
next
  show "type_eq (Function s i None) (Function s i rs)" by simp
next
  show "type_eq (Function s i rs) (Function s i None)"
    by (simp split: option.splits)
qed

theorem C6_type_eq_amended_witness:
  "complete (Function INT_t 0 (Some [Scalar INT_t 0]))
   \<and> type_eq (Function INT_t 0 None) (Function INT_t 0 (Some [Scalar INT_t 0]))
   \<and> type_eq (Function INT_t 0 (Some [Scalar INT_t 0])) (Function INT_t 0 None)
   \<and> type_eq (Function INT_t 0 None) (Function INT_t 0 None)
   \<and> list_all complete [Scalar INT_t 0] \<and> list_all complete [Scalar CHAR_t 0]
   \<and> [Scalar INT_t 0] \<noteq> [Scalar CHAR_t 0]
   \<and> \<not> type_eq (Function INT_t 0 (Some [Scalar INT_t 0]))
               (Function INT_t 0 (Some [Scalar CHAR_t 0]))"
  using C6_type_eq_amended [of "Function INT_t 0 (Some [Scalar INT_t 0])"
      "Function INT_t 0 None" "Function INT_t 0 None"
      "[Scalar INT_t 0]" "[Scalar CHAR_t 0]" INT_t 0 INT_t 0 "None"]
  by simp


section \<open>Properties of the checker\<close>

lemma type_neq_Error_iff: "type_neq t Error \<longleftrightarrow> t \<noteq> Error"
  by (cases t) (simp_all add: type_neq_def)

lemma type_eq_Scalar_iff: "type_eq (Scalar s i) t \<longleftrightarrow> t = Scalar s i"
  by (cases t) auto

lemma type_eq_Scalar_iff2: "type_eq t (Scalar s i) \<longleftrightarrow> t = Scalar s i"
  by (cases t) auto

lemma promote_pointer: "type_of e = Scalar s i \<Longrightarrow> 0 < i \<Longrightarrow> promote e = e"
  by (auto simp: promote_def character_def)

lemma promote_Error: "type_of e = Error \<Longrightarrow> promote e = e"
  by (simp add: promote_def character_def)

lemma isPointer_facts:
  assumes ptr: "isPointer (type_of p)"
  shows "type_of p \<noteq> Error" and "\<not> isNumeric (type_of p)"
proof -
  show "type_of p \<noteq> Error" using ptr by (cases "type_of p") simp_all
  show "\<not> isNumeric (type_of p)" using ptr by (cases "type_of p") auto
qed

lemma promote_type_cases:
  assumes "Type_deref (type_of (promote p)) = Some T"
  obtains s i where "type_of (promote p) = Scalar s i" "i \<noteq> 0" "T = Scalar s (i - 1)"
  using assms by (cases "type_of (promote p)") (auto split: if_splits)

lemma scalar_size_ucast:
  "ucast (ucast (scalar_size s j 1) :: 32 word) = scalar_size s j 1"
  by (simp add: scalar_size_def SIZEOF_PTR_def SIZEOF_CHAR_def SIZEOF_INT_def SIZEOF_LONG_def)

lemma pointer_not_voidptr:
  assumes ptr: "isPointer (type_of p)" and tp: "type_of (promote p) = Scalar s i"
    and nvp: "Scalar s i \<noteq> voidptr"
  shows "type_neq (type_of p) voidptr"
proof (cases "type_of p")
  case (Scalar a b)
  then have "promote p = p" using ptr by (simp add: promote_pointer)
  then show ?thesis using tp nvp Scalar
    by (simp add: type_neq_def voidptr_def)
qed (simp_all add: type_neq_def voidptr_def)

lemma checkAdd_pointer_left:
  assumes ptr: "isPointer (type_of p)" and pne: "type_of p \<noteq> Error" "\<not> isNumeric (type_of p)"
    and pnv: "type_neq (type_of p) voidptr"
    and tn: "type_of n = Scalar s' 0" and s': "s' \<noteq> VOID_t"
    and tp: "type_of (promote p) = Scalar s i"
    and ds: "deref_size (Scalar s i) = Some sz"
  shows "checkAdd p n = Some (Add (promote p) (scale n (ucast sz)) (type_of (promote p)), [])"
  using ptr pne pnv tn s' ds
  by (simp add: checkAdd_def type_neq_Error_iff tp Let_def)

lemma checkAdd_pointer_right:
  assumes ptr: "isPointer (type_of p)" and pne: "type_of p \<noteq> Error" "\<not> isNumeric (type_of p)"
    and pnv: "type_neq (type_of p) voidptr"
    and tn: "type_of n = Scalar s' 0" and s': "s' \<noteq> VOID_t"
    and tp: "type_of (promote p) = Scalar s i"
    and ds: "deref_size (Scalar s i) = Some sz"
  shows "checkAdd n p = Some (Add (scale n (ucast sz)) (promote p) (type_of (promote p)), [])"
  using ptr pne pnv tn s' ds
  by (simp add: checkAdd_def type_neq_Error_iff tp Let_def)

lemma checkSubtract_operands_pointer:
  assumes ptr: "isPointer (type_of p)" and pne: "type_of p \<noteq> Error" "\<not> isNumeric (type_of p)"
    and tn: "type_of n = Scalar s' 0" and s': "s' \<noteq> VOID_t"
    and tp: "type_of (promote p) = Scalar s i" and i: "i \<noteq> 0"
    and nvp: "Scalar s i \<noteq> voidptr"
    and ds: "deref_size (Scalar s i) = Some sz"
  shows "checkSubtract_operands p n =
      Some (promote p, scale n (ucast sz), Scalar s i, Scalar s' 0, Scalar s i, [])"
proof -
  have "type_neq (Scalar s i) voidptr"
    using nvp by (simp add: type_neq_def voidptr_def)
  then show ?thesis
    using ptr pne tn s' ds i
    by (simp add: checkSubtract_operands_def type_neq_Error_iff tp Let_def word_gt_0)
qed

lemma checkSubtract_pointer:
  assumes ops: "checkSubtract_operands p n =
      Some (promote p, scale n (ucast sz), Scalar s i, Scalar s' 0, Scalar s i, [])"
    and tp: "type_of (promote p) = Scalar s i" and i: "i \<noteq> 0"
  shows "checkSubtract p n =
        Some (Subtract (promote p) (scale n (ucast sz)) (type_of (promote p)), [])"
  using i by (simp add: checkSubtract_def ops tp word_gt_0)

lemma scale_literal:
  assumes uc: "ucast (ucast sz :: 32 word) = (sz :: 64 word)"
  shows "\<forall>v. isNumber n = Some v \<longrightarrow> scale n (ucast sz) = Number (v * sz) longint"
    and "isNumber n = None \<longrightarrow>
         scale n (ucast sz) = Multiply (extend_e n longint) (Number sz longint) longint"
  by (simp_all add: scale_def uc Number_ul_def)


text \<open>
  Claim C4: when both operands of a subtraction have the same type pointer to \<open>T\<close>,
  with \<open>T\<close> not void, \<open>checkSubtract\<close> reports nothing and returns the \<open>Subtract\<close>
  node, of type long, wrapped in a \<open>Divide\<close> by the literal \<open>sizeof(T)\<close>; the type
  of the whole expression is long.
\<close>

theorem C4_pointer_difference:
  assumes "type_of right = type_of left"
    and "Type_deref (type_of left) = Some T"
    and "T \<noteq> Scalar VOID_t 0"
    and "Type_size T = Some sz"
  shows "checkSubtract left right =
           Some (Divide (Subtract left right longint) (Number sz longint) longint, [])
         \<and> type_of (Divide (Subtract left right longint) (Number sz longint) longint) = longint"
proof -
  from assms(2) obtain s i where tl: "type_of left = Scalar s i" and ipos: "0 < i"
    and T: "T = Scalar s (i - 1)"
    by (cases "type_of left") (auto split: if_splits)
  have tr: "type_of right = Scalar s i" using assms(1) tl by simp
  have i: "i \<noteq> 0" using ipos by auto
  have nv: "s = VOID_t \<longrightarrow> i \<noteq> 1" using assms(3) T by auto
  have pl: "promote left = left" and pr: "promote right = right"
    using tl tr ipos by (simp_all add: promote_pointer)
  have ops: "checkSubtract_operands left right =
      Some (left, right, Scalar s i, Scalar s i, longint, [])"
    using tl tr i nv
    by (simp add: checkSubtract_operands_def pl pr type_neq_def voidptr_def
        type_eq_Scalar_iff Let_def word_gt_0)
  show ?thesis
    using ipos i assms(4) T
    by (simp add: checkSubtract_def ops deref_size_def Number_ul_def)
qed

theorem C4_pointer_difference_witness:
  "type_of (Identifier \<lparr>sym_name = ''q'', sym_type = Scalar INT_t 1, sym_offset = 0\<rparr>)
     = type_of (Identifier \<lparr>sym_name = ''p'', sym_type = Scalar INT_t 1, sym_offset = 0\<rparr>)
   \<and> Type_deref (type_of (Identifier \<lparr>sym_name = ''p'', sym_type = Scalar INT_t 1, sym_offset = 0\<rparr>))
     = Some (Scalar INT_t 0)
   \<and> Scalar INT_t 0 \<noteq> Scalar VOID_t 0
   \<and> Type_size (Scalar INT_t 0) = Some 4
   \<and> checkSubtract
        (Identifier \<lparr>sym_name = ''p'', sym_type = Scalar INT_t 1, sym_offset = 0\<rparr>)
        (Identifier \<lparr>sym_name = ''q'', sym_type = Scalar INT_t 1, sym_offset = 0\<rparr>)
      = Some (Divide
               (Subtract
                 (Identifier \<lparr>sym_name = ''p'', sym_type = Scalar INT_t 1, sym_offset = 0\<rparr>)
                 (Identifier \<lparr>sym_name = ''q'', sym_type = Scalar INT_t 1, sym_offset = 0\<rparr>)
                 longint)
               (Number 4 longint) longint, [])"
  using C4_pointer_difference
    [of "Identifier \<lparr>sym_name = ''q'', sym_type = Scalar INT_t 1, sym_offset = 0\<rparr>"
        "Identifier \<lparr>sym_name = ''p'', sym_type = Scalar INT_t 1, sym_offset = 0\<rparr>"
        "Scalar INT_t 0" 4]
  by (simp add: scalar_size_def SIZEOF_INT_def)


text \<open>
  Claim C5: in the additions \<open>p + n\<close> and \<open>n + p\<close> and in the subtraction
  \<open>p - n\<close>, where \<open>p\<close> is of a pointer type (an array counts, it is promoted)
  whose pointee \<open>T\<close> is not void and \<open>n\<close> is numeric, the checker reports nothing,
  promotes \<open>p\<close> and replaces \<open>n\<close> by \<open>scale n sizeof(T)\<close>. When \<open>n\<close> is a literal of value \<open>v\<close> that is the single
  literal \<open>v * sizeof(T)\<close> (the product of two \<open>unsigned long\<close>), and no
  \<open>Multiply\<close> node is built; otherwise it is the \<open>Multiply\<close> of \<open>n\<close>, extended to
  long, by the literal \<open>sizeof(T)\<close>.
\<close>

theorem C5_pointer_arithmetic_scaled:
  assumes ptr: "isPointer (type_of p)"
    and T: "Type_deref (type_of (promote p)) = Some T"
    and nv: "T \<noteq> Scalar VOID_t 0"
    and sz: "Type_size T = Some sz"
    and num: "isNumeric (type_of n)"
  shows "checkAdd p n = Some (Add (promote p) (scale n (ucast sz)) (type_of (promote p)), [])
    \<and> checkAdd n p = Some (Add (scale n (ucast sz)) (promote p) (type_of (promote p)), [])
    \<and> checkSubtract p n =
        Some (Subtract (promote p) (scale n (ucast sz)) (type_of (promote p)), [])
    \<and> (\<forall>v. isNumber n = Some v \<longrightarrow> scale n (ucast sz) = Number (v * sz) longint)
    \<and> (isNumber n = None \<longrightarrow>
         scale n (ucast sz) = Multiply (extend_e n longint) (Number sz longint) longint)"
proof -
  from T obtain s i where tp: "type_of (promote p) = Scalar s i" and i: "i \<noteq> 0"
    and Teq: "T = Scalar s (i - 1)"
    by (rule promote_type_cases)
  obtain s' where tn: "type_of n = Scalar s' 0" and s': "s' \<noteq> VOID_t"
    using num by (cases "type_of n") auto
  have szeq: "sz = scalar_size s (i - 1) 1" using sz Teq by simp
  have uc: "ucast (ucast sz :: 32 word) = sz" by (simp add: szeq scalar_size_ucast)
  have nvp: "Scalar s i \<noteq> voidptr" using nv Teq by (auto simp: voidptr_def)
  have pne: "type_of p \<noteq> Error" "\<not> isNumeric (type_of p)"
    using ptr by (rule isPointer_facts)+
  have pnv: "type_neq (type_of p) voidptr"
    using ptr tp nvp by (rule pointer_not_voidptr)
  have ds: "deref_size (Scalar s i) = Some sz"
    using i sz Teq by (simp add: deref_size_def word_gt_0)
  have ops: "checkSubtract_operands p n =
      Some (promote p, scale n (ucast sz), Scalar s i, Scalar s' 0, Scalar s i, [])"
    using ptr pne tn s' tp i nvp ds by (rule checkSubtract_operands_pointer)
  show ?thesis
  proof (intro conjI)
    show "checkAdd p n = Some (Add (promote p) (scale n (ucast sz)) (type_of (promote p)), [])"
      using ptr pne pnv tn s' tp ds by (rule checkAdd_pointer_left)
    show "checkAdd n p = Some (Add (scale n (ucast sz)) (promote p) (type_of (promote p)), [])"
      using ptr pne pnv tn s' tp ds by (rule checkAdd_pointer_right)
    show "checkSubtract p n =
        Some (Subtract (promote p) (scale n (ucast sz)) (type_of (promote p)), [])"
      using ops tp i by (rule checkSubtract_pointer)
    show "\<forall>v. isNumber n = Some v \<longrightarrow> scale n (ucast sz) = Number (v * sz) longint"
      using uc by (rule scale_literal(1))
    show "isNumber n = None \<longrightarrow>
         scale n (ucast sz) = Multiply (extend_e n longint) (Number sz longint) longint"
      using uc by (rule scale_literal(2))
  qed
qed

theorem C5_pointer_arithmetic_scaled_witness:
  "isPointer (type_of (Identifier \<lparr>sym_name = ''p'', sym_type = Scalar INT_t 1, sym_offset = 0\<rparr>))
   \<and> Type_deref (type_of (promote (Identifier \<lparr>sym_name = ''p'', sym_type = Scalar INT_t 1, sym_offset = 0\<rparr>)))
       = Some (Scalar INT_t 0)
   \<and> Scalar INT_t 0 \<noteq> Scalar VOID_t 0
   \<and> Type_size (Scalar INT_t 0) = Some 4
   \<and> isNumeric (type_of (Number 2 integer))
   \<and> checkAdd (Identifier \<lparr>sym_name = ''p'', sym_type = Scalar INT_t 1, sym_offset = 0\<rparr>)
        (Number 2 integer)
      = Some (Add (Identifier \<lparr>sym_name = ''p'', sym_type = Scalar INT_t 1, sym_offset = 0\<rparr>)
                (Number 8 longint) (Scalar INT_t 1), [])
   \<and> checkSubtract (Identifier \<lparr>sym_name = ''p'', sym_type = Scalar INT_t 1, sym_offset = 0\<rparr>)
        (Number 2 integer)
      = Some (Subtract (Identifier \<lparr>sym_name = ''p'', sym_type = Scalar INT_t 1, sym_offset = 0\<rparr>)
                (Number 8 longint) (Scalar INT_t 1), [])"
  using C5_pointer_arithmetic_scaled
    [of "Identifier \<lparr>sym_name = ''p'', sym_type = Scalar INT_t 1, sym_offset = 0\<rparr>"
        "Scalar INT_t 0" 4 "Number 2 integer"]
  by (simp add: scalar_size_def SIZEOF_INT_def promote_def character_def integer_def)



text \<open>
  Claim C9: when both operands are of type pointer to void, \<open>checkSubtract\<close>
  reports invalid operands and gives the \<open>Subtract\<close> node the error type, and
  still returns it wrapped in a \<open>Divide\<close> of type long whose divisor is the
  literal 0, the size of void: the test before the wrapping does not exclude the
  pointer to void.
\<close>

theorem C9_void_pointer_difference:
  assumes "type_of left = voidptr" and "type_of right = voidptr"
  shows "checkSubtract left right =
           Some (Divide (Subtract left right Error) (Number 0 longint) longint,
                 [invalid_operands ''-''])
         \<and> Option.bind (Type_deref voidptr) Type_size = Some 0"
proof -
  have pl: "promote left = left" and pr: "promote right = right"
    using assms by (simp_all add: promote_pointer voidptr_def)
  have ops: "checkSubtract_operands left right =
      Some (left, right, voidptr, voidptr, Error, [invalid_operands ''-''])"
    using assms
    by (simp add: checkSubtract_operands_def pl pr type_neq_def voidptr_def Let_def)
  show ?thesis
    by (simp add: checkSubtract_def ops deref_size_def Number_ul_def voidptr_def scalar_size_def)
qed

theorem C9_void_pointer_difference_witness:
  "type_of (Identifier \<lparr>sym_name = ''p'', sym_type = Scalar VOID_t 1, sym_offset = 0\<rparr>) = voidptr
   \<and> type_of (Identifier \<lparr>sym_name = ''q'', sym_type = Scalar VOID_t 1, sym_offset = 0\<rparr>) = voidptr
   \<and> checkSubtract
        (Identifier \<lparr>sym_name = ''p'', sym_type = Scalar VOID_t 1, sym_offset = 0\<rparr>)
        (Identifier \<lparr>sym_name = ''q'', sym_type = Scalar VOID_t 1, sym_offset = 0\<rparr>)
      = Some (Divide
               (Subtract
                 (Identifier \<lparr>sym_name = ''p'', sym_type = Scalar VOID_t 1, sym_offset = 0\<rparr>)
                 (Identifier \<lparr>sym_name = ''q'', sym_type = Scalar VOID_t 1, sym_offset = 0\<rparr>)
                 Error)
               (Number 0 longint) longint, [invalid_operands ''-''])"
  using C9_void_pointer_difference
    [of "Identifier \<lparr>sym_name = ''p'', sym_type = Scalar VOID_t 1, sym_offset = 0\<rparr>"
        "Identifier \<lparr>sym_name = ''q'', sym_type = Scalar VOID_t 1, sym_offset = 0\<rparr>"]
  by (simp add: voidptr_def)



text \<open>
  Claim C3 says that a call with the wrong number of arguments yields a \<open>Call\<close>
  node of the error type. The branch of \<open>checkCall\<close> for that case reports
  \<open>invalid_arguments\<close> once and leaves the result type as it is, the return type
  of the callee: for \<open>int f(int)\<close> the call \<open>f(1, 2)\<close> has type int.
\<close>

theorem C3_count_mismatch_keeps_type:
  "checkCall \<lparr>sym_name = ''f'', sym_type = Function INT_t 0 (Some [integer]), sym_offset = 0\<rparr>
          [Number 1 integer, Number 2 integer]
   = (Call \<lparr>sym_name = ''f'', sym_type = Function INT_t 0 (Some [integer]), sym_offset = 0\<rparr>
          [Number 1 integer, Number 2 integer] (Scalar INT_t 0), [invalid_arguments])"
  by (simp add: checkCall_def type_neq_def)

text \<open>
  The sibling branch, for an argument that is incompatible with its parameter,
  reports once and sets the error type: \<open>int f(int *)\<close> called as \<open>f(1)\<close>.
\<close>

lemma checkCall_incompatible_argument:
  "checkCall \<lparr>sym_name = ''f'', sym_type = Function INT_t 0 (Some [Scalar INT_t 1]), sym_offset = 0\<rparr>
          [Number 1 integer]
   = (Call \<lparr>sym_name = ''f'', sym_type = Function INT_t 0 (Some [Scalar INT_t 1]), sym_offset = 0\<rparr>
          [Number 1 integer] Error, [invalid_arguments])"
  by (simp add: checkCall_def type_neq_def convert_def integer_def isCompatibleWith_def)


subsection \<open>Operands of the error type\<close>

lemma extend_Error: "type_of e = Error \<Longrightarrow> extend_e e ty = e"
  by (simp add: extend_e_def promote_Error type_neq_def)

lemma convert_Error: "type_of e = Error \<Longrightarrow> convert e ty = e"
  by (simp add: convert_def)

lemma checkMultiplicative_Error:
  assumes "type_of l = Error \<or> type_of r = Error"
  shows "\<exists>l' r'. checkMultiplicative l r op = (l', r', Error, [])"
  using assms
  by (auto simp: checkMultiplicative_def Let_def extend_Error type_neq_Error_iff)

lemma checkRelational_Error:
  assumes "type_of l = Error \<or> type_of r = Error"
  shows "\<exists>l' r'. checkRelational l r op = (l', r', Error, [])"
  using assms
  by (auto simp: checkRelational_def Let_def extend_Error type_neq_Error_iff)

lemma checkEquality_Error:
  assumes "type_of l = Error \<or> type_of r = Error"
  shows "\<exists>l' r'. checkEquality l r op = (l', r', Error, [])"
  using assms
  by (auto simp: checkEquality_def Let_def extend_Error type_neq_Error_iff)

lemma checkLogical_Error:
  assumes "type_of l = Error \<or> type_of r = Error"
  shows "\<exists>l' r'. checkLogical l r op = (l', r', Error, [])"
  using assms
  by (auto simp: checkLogical_def Let_def extend_Error type_neq_Error_iff)

lemma checkAdd_Error:
  assumes "type_of l = Error \<or> type_of r = Error"
  shows "checkAdd l r = Some (Add l r Error, [])"
  using assms by (auto simp: checkAdd_def Let_def type_neq_Error_iff)

lemma checkSubtract_Error:
  assumes "type_of l = Error \<or> type_of r = Error"
  shows "checkSubtract l r = Some (Subtract l r Error, [])"
proof -
  have ops: "checkSubtract_operands l r = Some (l, r, type_of l, type_of r, Error, [])"
    using assms by (auto simp: checkSubtract_operands_def Let_def type_neq_Error_iff)
  have "\<not> (isPointer (type_of l) \<and> type_eq (type_of l) (type_of r))"
    using assms by (cases "type_of l"; cases "type_of r"; simp)
  then show ?thesis by (auto simp: checkSubtract_def ops Let_def)
qed

lemma checkArray_Error:
  assumes "type_of l = Error \<or> type_of r = Error"
  shows "checkArray l r = Some (Dereference (Add (promote l) r (type_of (promote l))) Error, [])"
  using assms by (auto simp: checkArray_def Let_def type_neq_Error_iff promote_Error)

lemma unary_Error:
  assumes "type_of e = Error"
  shows "checkNot e = (Not_e e Error, [])"
    and "checkNegate e = (Negate e Error, [])"
    and "checkDereference e = Some (Dereference e Error, [])"
    and "checkAddress e = (Address e Error, [])"
    and "checkTest e = (e, [])"
    and "checkReturn e ty = (e, [])"
  using assms
  by (simp_all add: checkNot_def checkNegate_def checkDereference_def checkAddress_def
      checkTest_def checkReturn_def promote_Error convert_Error type_neq_def Let_def)

lemma checkAssignment_Error:
  assumes "type_of l = Error \<or> type_of r = Error"
  shows "snd (checkAssignment l r) = []"
  using assms by (auto simp: checkAssignment_def Let_def type_neq_Error_iff convert_Error)

lemma checkCall_Error:
  assumes "sym_type f = Error"
  shows "checkCall f args = (Call f args Error, [])"
  using assms by (simp add: checkCall_def type_neq_def)

lemma promote_args_Error:
  "list_all (\<lambda>a. type_of a = Error) args \<Longrightarrow> promote_args args = (args, True)"
  by (induction args) (simp_all add: promote_Error type_neq_def)

lemma checkCall_absent_Error_arguments:
  assumes "sym_type g = Function s i None"
    and "list_all (\<lambda>a. type_of a = Error) eargs"
  shows "checkCall g eargs = (Call g eargs (Scalar s i), [])"
  using assms by (simp add: checkCall_def type_neq_def promote_args_Error)



text \<open>
  Claim C1, as stated, covers \<open>checkCall\<close> and its arguments. For a function
  declared with a null parameter list the loop over the arguments skips an
  argument of the error type, so nothing is reported, but the \<open>Call\<close> node keeps
  the return type of the callee: with \<open>int f()\<close> and \<open>x\<close> undeclared, \<open>f(x)\<close> has
  type int.
\<close>

theorem C1_call_argument_counterexample:
  "type_of (Identifier \<lparr>sym_name = ''x'', sym_type = Error, sym_offset = 0\<rparr>) = Error
   \<and> type_of (fst (checkCall
        \<lparr>sym_name = ''f'', sym_type = Function INT_t 0 None, sym_offset = 0\<rparr>
        [Identifier \<lparr>sym_name = ''x'', sym_type = Error, sym_offset = 0\<rparr>])) \<noteq> Error"
  by (simp add: checkCall_def type_neq_def promote_def character_def)

text \<open>
  Claim C1, amended: an operand of the error type makes \<open>checkNot\<close>,
  \<open>checkNegate\<close>, \<open>checkDereference\<close>, \<open>checkAddress\<close>, \<open>checkArray\<close>, \<open>checkAdd\<close>,
  \<open>checkSubtract\<close>, \<open>checkMultiply\<close>, \<open>checkDivide\<close>, \<open>checkRemainder\<close> and the
  relational, equality and logical checks return a node of the error type and
  report nothing; a callee of the error type does the same for \<open>checkCall\<close>, while
  arguments of the error type passed to a callee with a null parameter list are
  passed over in silence and the call keeps the return type of the callee;
  \<open>checkAssignment\<close>, \<open>checkReturn\<close> and \<open>checkTest\<close>, which return no typed node,
  report nothing.
\<close>

theorem C1_error_operands_amended:
  assumes e: "type_of e = Error"
    and lr: "type_of l = Error \<or> type_of r = Error"
    and f: "sym_type f = Error"
    and g: "sym_type g = Function s i None"
    and eargs: "list_all (\<lambda>a. type_of a = Error) eargs"
  shows "checkNot e = (Not_e e Error, [])
    \<and> checkNegate e = (Negate e Error, [])
    \<and> checkDereference e = Some (Dereference e Error, [])
    \<and> checkAddress e = (Address e Error, [])
    \<and> checkArray l r = Some (Dereference (Add (promote l) r (type_of (promote l))) Error, [])
    \<and> checkAdd l r = Some (Add l r Error, [])
    \<and> checkSubtract l r = Some (Subtract l r Error, [])
    \<and> (\<forall>chk \<in> {checkMultiply, checkDivide, checkRemainder, checkLessThan, checkGreaterThan,
                  checkLessOrEqual, checkGreaterOrEqual, checkEqual, checkNotEqual,
                  checkLogicalAnd, checkLogicalOr}.
          type_of (fst (chk l r)) = Error \<and> snd (chk l r) = [])
    \<and> checkCall f args = (Call f args Error, [])
    \<and> checkCall g eargs = (Call g eargs (Scalar s i), [])
    \<and> snd (checkAssignment l r) = []
    \<and> checkReturn e ty = (e, [])
    \<and> checkTest e = (e, [])"
proof -
  have m: "type_of (fst (checkMultiply l r)) = Error \<and> snd (checkMultiply l r) = []"
      "type_of (fst (checkDivide l r)) = Error \<and> snd (checkDivide l r) = []"
      "type_of (fst (checkRemainder l r)) = Error \<and> snd (checkRemainder l r) = []"
    using checkMultiplicative_Error [OF lr, of "''*''"]
      checkMultiplicative_Error [OF lr, of "''/''"]
      checkMultiplicative_Error [OF lr, of "''%''"]
    by (auto simp: checkMultiply_def checkDivide_def checkRemainder_def)
  have rel: "type_of (fst (checkLessThan l r)) = Error \<and> snd (checkLessThan l r) = []"
      "type_of (fst (checkGreaterThan l r)) = Error \<and> snd (checkGreaterThan l r) = []"
      "type_of (fst (checkLessOrEqual l r)) = Error \<and> snd (checkLessOrEqual l r) = []"
      "type_of (fst (checkGreaterOrEqual l r)) = Error \<and> snd (checkGreaterOrEqual l r) = []"
    using checkRelational_Error [OF lr, of "''<''"]
      checkRelational_Error [OF lr, of "''>''"]
      checkRelational_Error [OF lr, of "''<=''"]
      checkRelational_Error [OF lr, of "''>=''"]
    by (auto simp: checkLessThan_def checkGreaterThan_def checkLessOrEqual_def
        checkGreaterOrEqual_def)
  have eq: "type_of (fst (checkEqual l r)) = Error \<and> snd (checkEqual l r) = []"
      "type_of (fst (checkNotEqual l r)) = Error \<and> snd (checkNotEqual l r) = []"
    using checkEquality_Error [OF lr, of "''==''"] checkEquality_Error [OF lr, of "''!=''"]
    by (auto simp: checkEqual_def checkNotEqual_def)
  have lg: "type_of (fst (checkLogicalAnd l r)) = Error \<and> snd (checkLogicalAnd l r) = []"
      "type_of (fst (checkLogicalOr l r)) = Error \<and> snd (checkLogicalOr l r) = []"
    using checkLogical_Error [OF lr, of "''&&''"] checkLogical_Error [OF lr, of "''||''"]
    by (auto simp: checkLogicalAnd_def checkLogicalOr_def)
  have bin: "\<forall>chk \<in> {checkMultiply, checkDivide, checkRemainder, checkLessThan, checkGreaterThan,
                  checkLessOrEqual, checkGreaterOrEqual, checkEqual, checkNotEqual,
                  checkLogicalAnd, checkLogicalOr}.
          type_of (fst (chk l r)) = Error \<and> snd (chk l r) = []"
    using m rel eq lg by blast
  show ?thesis
    using unary_Error [OF e] checkArray_Error [OF lr] checkAdd_Error [OF lr]
      checkSubtract_Error [OF lr] bin checkCall_Error [OF f] checkAssignment_Error [OF lr]
      checkCall_absent_Error_arguments [OF g eargs]
    by blast
qed

theorem C1_error_operands_amended_witness:
  "type_of (Identifier \<lparr>sym_name = ''x'', sym_type = Error, sym_offset = 0\<rparr>) = Error
   \<and> (type_of (Identifier \<lparr>sym_name = ''x'', sym_type = Error, sym_offset = 0\<rparr>) = Error
        \<or> type_of (Number 1 integer) = Error)
   \<and> sym_type \<lparr>sym_name = ''g'', sym_type = Error, sym_offset = 0\<rparr> = Error
   \<and> sym_type \<lparr>sym_name = ''h'', sym_type = Function INT_t 0 None, sym_offset = 0\<rparr>
       = Function INT_t 0 None
   \<and> list_all (\<lambda>a. type_of a = Error)
        [Identifier \<lparr>sym_name = ''x'', sym_type = Error, sym_offset = 0\<rparr>]
   \<and> checkCall \<lparr>sym_name = ''h'', sym_type = Function INT_t 0 None, sym_offset = 0\<rparr>
        [Identifier \<lparr>sym_name = ''x'', sym_type = Error, sym_offset = 0\<rparr>]
       = (Call \<lparr>sym_name = ''h'', sym_type = Function INT_t 0 None, sym_offset = 0\<rparr>
            [Identifier \<lparr>sym_name = ''x'', sym_type = Error, sym_offset = 0\<rparr>]
            (Scalar INT_t 0), [])
   \<and> checkMultiply \<in> {checkMultiply, checkDivide, checkRemainder, checkLessThan,
        checkGreaterThan, checkLessOrEqual, checkGreaterOrEqual, checkEqual, checkNotEqual,
        checkLogicalAnd, checkLogicalOr}
   \<and> checkNot (Identifier \<lparr>sym_name = ''x'', sym_type = Error, sym_offset = 0\<rparr>)
       = (Not_e (Identifier \<lparr>sym_name = ''x'', sym_type = Error, sym_offset = 0\<rparr>) Error, [])
   \<and> checkAdd (Identifier \<lparr>sym_name = ''x'', sym_type = Error, sym_offset = 0\<rparr>)
        (Number 1 integer)
       = Some (Add (Identifier \<lparr>sym_name = ''x'', sym_type = Error, sym_offset = 0\<rparr>)
                (Number 1 integer) Error, [])
   \<and> type_of (fst (checkMultiply
        (Identifier \<lparr>sym_name = ''x'', sym_type = Error, sym_offset = 0\<rparr>)
        (Number 1 integer))) = Error
   \<and> snd (checkMultiply
        (Identifier \<lparr>sym_name = ''x'', sym_type = Error, sym_offset = 0\<rparr>)
        (Number 1 integer)) = []
   \<and> checkCall \<lparr>sym_name = ''g'', sym_type = Error, sym_offset = 0\<rparr> []
       = (Call \<lparr>sym_name = ''g'', sym_type = Error, sym_offset = 0\<rparr> [] Error, [])"
  using C1_error_operands_amended
    [of "Identifier \<lparr>sym_name = ''x'', sym_type = Error, sym_offset = 0\<rparr>"
        "Identifier \<lparr>sym_name = ''x'', sym_type = Error, sym_offset = 0\<rparr>"
        "Number 1 integer"
        "\<lparr>sym_name = ''g'', sym_type = Error, sym_offset = 0\<rparr>"
        "\<lparr>sym_name = ''h'', sym_type = Function INT_t 0 None, sym_offset = 0\<rparr>"
        INT_t 0
        "[Identifier \<lparr>sym_name = ''x'', sym_type = Error, sym_offset = 0\<rparr>]"
        "[]" integer]
  by simp


text \<open>
  Two checks treat an operand of the error type otherwise. \<open>checkSizeof\<close> hands it
  to \<open>Type::size\<close>, whose assertion fails; the branch of \<open>checkCall\<close> for a declared
  parameter list tests the compatibility of an argument of the error type and
  reports it.
\<close>

lemma checkSizeof_Error_operand:
  "type_of e = Error \<Longrightarrow> checkSizeof e = None"
  by (simp add: checkSizeof_def type_neq_def)

lemma checkCall_declared_parameters_Error_argument:
  "checkCall \<lparr>sym_name = ''f'', sym_type = Function INT_t 0 (Some [integer]), sym_offset = 0\<rparr>
     [Identifier \<lparr>sym_name = ''x'', sym_type = Error, sym_offset = 0\<rparr>]
   = (Call \<lparr>sym_name = ''f'', sym_type = Function INT_t 0 (Some [integer]), sym_offset = 0\<rparr>
        [Identifier \<lparr>sym_name = ''x'', sym_type = Error, sym_offset = 0\<rparr>] Error,
      [invalid_arguments])"
  by (simp add: checkCall_def type_neq_def convert_def integer_def isCompatibleWith_def)


section \<open>Properties of the allocator\<close>

lemma to_int32_id: "- (2 ^ 31) \<le> x \<Longrightarrow> x < 2 ^ 31 \<Longrightarrow> to_int32 x = x"
  by (simp add: to_int32_def)

lemma to_int32_mod: "to_int32 (x mod 2 ^ 64) = to_int32 x"
proof -
  have "(x mod 2 ^ 64 + 2 ^ 31) mod 2 ^ 32 = (x + 2 ^ 31) mod (2 ^ 32 :: int)"
  proof -
    have d: "(2 ^ 32 :: int) dvd 2 ^ 64" by (simp add: le_imp_power_dvd)
    have "(x mod 2 ^ 64 + 2 ^ 31) mod 2 ^ 32 = (x mod 2 ^ 64 mod 2 ^ 32 + 2 ^ 31) mod (2 ^ 32 :: int)"
      by (simp add: mod_add_left_eq)
    also have "x mod 2 ^ 64 mod 2 ^ 32 = x mod (2 ^ 32 :: int)"
      using d by (rule mod_mod_cancel)
    also have "(x mod 2 ^ 32 + 2 ^ 31) mod 2 ^ 32 = (x + 2 ^ 31) mod (2 ^ 32 :: int)"
      by (simp add: mod_add_left_eq)
    finally show ?thesis .
  qed
  then show ?thesis by (simp add: to_int32_def)
qed

lemma sub_size_exact:
  "- (2 ^ 31) \<le> offset - int (unat sz) \<Longrightarrow> offset < 2 ^ 31 \<Longrightarrow>
     sub_size offset sz = offset - int (unat sz)"
proof -
  assume a: "- (2 ^ 31) \<le> offset - int (unat sz)" "offset < 2 ^ 31"
  have u: "int (unat sz) = uint sz" by simp
  have "0 \<le> uint sz" by simp
  then have "offset - uint sz < 2 ^ 31" using a(2) by linarith
  moreover have "- (2 ^ 31) \<le> offset - uint sz" using a(1) u by simp
  ultimately have "to_int32 (offset - uint sz) = offset - uint sz"
    by (intro to_int32_id)
  then have "sub_size offset sz = offset - uint sz"
    unfolding sub_size_def to_int32_mod .
  then show ?thesis by simp
qed

lemma allocate_symbols_exact:
  "sized_symbols symbols \<Longrightarrow> - (2 ^ 31) \<le> offset - int (own_size symbols) \<Longrightarrow>
   offset < 2 ^ 31 \<Longrightarrow>
   \<exists>symbols'. allocate_symbols symbols offset = Some (symbols', offset - int (own_size symbols))"
proof (induction symbols arbitrary: offset)
  case Nil
  then show ?case by simp
next
  case (Cons symbol symbols)
  show ?case
  proof (cases "sym_offset symbol = 0")
    case True
    with Cons.prems(1) obtain sz where sz: "Type_size (sym_type symbol) = Some sz"
      by (auto simp: sized_symbols_def)
    have own: "own_size (symbol # symbols) = unat sz + own_size symbols"
      using True sz by simp
    have b1: "- (2 ^ 31) \<le> offset - int (unat sz)"
      using Cons.prems(2) own by simp
    have ss: "sub_size offset sz = offset - int (unat sz)"
      using b1 Cons.prems(3) by (rule sub_size_exact)
    have nn: "0 \<le> int (unat sz)" by simp
    have b2: "offset - int (unat sz) < 2 ^ 31"
      using Cons.prems(3) nn by linarith
    have b3: "- (2 ^ 31) \<le> offset - int (unat sz) - int (own_size symbols)"
      using Cons.prems(2) own by simp
    have s: "sized_symbols symbols"
      using Cons.prems(1) by (simp add: sized_symbols_def)
    have "\<exists>symbols'. allocate_symbols symbols (offset - int (unat sz)) =
            Some (symbols', offset - int (unat sz) - int (own_size symbols))"
      using s b3 b2 by (rule Cons.IH)
    then obtain symbols' where "allocate_symbols symbols (offset - int (unat sz)) =
            Some (symbols', offset - int (unat sz) - int (own_size symbols))" ..
    then have "allocate_symbols (symbol # symbols) offset =
        Some (symbol\<lparr>sym_offset := offset - int (unat sz)\<rparr> # symbols',
              offset - int (own_size (symbol # symbols)))"
      using True sz ss own by (simp del: own_size.simps)
    then show ?thesis by blast
  next
    case False
    have "\<exists>symbols'. allocate_symbols symbols offset =
            Some (symbols', offset - int (own_size symbols))"
      using Cons.prems False by (intro Cons.IH) (simp_all add: sized_symbols_def)
    then show ?thesis using False by auto
  qed
qed



lemma allocate_exact:
  "sized stmt \<Longrightarrow> - (2 ^ 31) \<le> off - int (depth stmt) \<Longrightarrow> off < 2 ^ 31 \<Longrightarrow>
      \<exists>stmt'. allocate stmt off = Some (stmt', off - int (depth stmt))"
  and allocate_stmts_exact:
  "sized_list stmts \<Longrightarrow> - (2 ^ 31) \<le> saved - int (depth_list stmts) \<Longrightarrow>
        saved < 2 ^ 31 \<Longrightarrow> offset \<le> saved \<Longrightarrow>
      \<exists>stmts'. allocate_stmts stmts saved offset =
          Some (stmts', min offset (saved - int (depth_list stmts)))"
proof (induction stmt off and stmts saved offset rule: allocate_allocate_stmts.induct)
  case (1 symbols stmts offset)
  note s = "1.prems"(1) and b = "1.prems"(2) and r = "1.prems"(3)
  have ss: "sized_symbols symbols" and sl: "sized_list stmts" using s by simp_all
  have b1: "- (2 ^ 31) \<le> offset - int (own_size symbols)" using b by simp
  from allocate_symbols_exact [OF ss b1 r] obtain symbols' where
    as: "allocate_symbols symbols offset = Some (symbols', offset - int (own_size symbols))"
    by blast
  let ?saved = "offset - int (own_size symbols)"
  have b2: "- (2 ^ 31) \<le> ?saved - int (depth_list stmts)" using b by simp
  have r2: "?saved < 2 ^ 31" using r by simp
  from "1.IH" [OF as refl sl b2 r2] obtain stmts' where
    al: "allocate_stmts stmts ?saved ?saved =
           Some (stmts', min ?saved (?saved - int (depth_list stmts)))"
    by blast
  have "min ?saved (?saved - int (depth_list stmts)) = offset - int (depth (Block symbols stmts))"
    by simp
  then show ?case using as al by simp
next
  case (2 e stmt offset)
  then show ?case by auto
next
  case (3 init e incr stmt offset)
  then show ?case by auto
next
  case (4 e thenStmt elseStmt offset)
  note s = "4.prems"(1) and b = "4.prems"(2) and r = "4.prems"(3)
  show ?case
  proof (cases elseStmt)
    case None
    then have "\<exists>stmt'. allocate thenStmt offset = Some (stmt', offset - int (depth thenStmt))"
      using "4.IH"(1) s b r by simp
    then show ?thesis using None by auto
  next
    case (Some els)
    have st: "sized thenStmt" and se: "sized els" using s Some by simp_all
    have bt: "- (2 ^ 31) \<le> offset - int (depth thenStmt)"
      and be: "- (2 ^ 31) \<le> offset - int (depth els)"
      using b Some by simp_all
    from "4.IH"(1) [OF st bt r] obtain t' where
      at: "allocate thenStmt offset = Some (t', offset - int (depth thenStmt))" by blast
    from "4.IH"(2) [OF at refl Some se be r] obtain e' where
      ae: "allocate els offset = Some (e', offset - int (depth els))" by blast
    have "min (offset - int (depth thenStmt)) (offset - int (depth els))
          = offset - int (depth (If_s e thenStmt elseStmt))"
      using Some by simp
    then show ?thesis using at ae Some by simp
  qed
next
  case (5 e offset)
  then show ?case by simp
next
  case (6 l r offset)
  then show ?case by simp
next
  case (7 e offset)
  then show ?case by simp
next
  case (8 saved offset)
  then show ?case by simp
next
  case (9 stmt stmts saved offset)
  note s = "9.prems"(1) and b = "9.prems"(2) and r = "9.prems"(3) and le = "9.prems"(4)
  have s1: "sized stmt" and s2: "sized_list stmts" using s by simp_all
  have b1: "- (2 ^ 31) \<le> saved - int (depth stmt)"
    and b2: "- (2 ^ 31) \<le> saved - int (depth_list stmts)"
    using b by simp_all
  from "9.IH"(1) [OF s1 b1 r] obtain stmt' where
    a1: "allocate stmt saved = Some (stmt', saved - int (depth stmt))" by blast
  have le2: "min offset (saved - int (depth stmt)) \<le> saved" using le by simp
  from "9.IH"(2) [OF a1 refl s2 b2 r le2] obtain stmts' where
    a2: "allocate_stmts stmts saved (min offset (saved - int (depth stmt))) =
          Some (stmts', min (min offset (saved - int (depth stmt)))
                            (saved - int (depth_list stmts)))" by blast
  have "min (min offset (saved - int (depth stmt))) (saved - int (depth_list stmts))
        = min offset (saved - int (depth_list (stmt # stmts)))"
    by simp
  then show ?case using a1 a2 by simp
qed

lemma path_le_depth:
  "\<forall>p \<in> set (path_sizes stmt). p \<le> depth stmt"
  and path_list_le_depth:
  "\<forall>p \<in> set (path_sizes_list stmts). p \<le> depth_list stmts"
  by (induction stmt and stmts rule: path_sizes_path_sizes_list.induct) auto

lemma align_nonneg: "0 \<le> align x"
proof -
  have "\<bar>x\<bar> mod 16 < (16 :: int)" by (rule pos_mod_bound) simp
  then have "0 \<le> 16 - \<bar>x\<bar> mod 16" by linarith
  then show ?thesis unfolding align_def STACK_ALIGNMENT_def by (cases "x mod 16 = 0") auto
qed

lemma to_int32_range: "- (2 ^ 31) \<le> to_int32 x \<and> to_int32 x < 2 ^ 31"
  by (simp add: to_int32_def)

lemma allocate_Block_shape:
  "allocate (Block symbols stmts) offset = Some (stmt', off') \<Longrightarrow>
     \<exists>symbols' stmts'. stmt' = Block symbols' stmts'"
  by (auto split: option.splits)


lemma promoted_scalar_size:
  "isScalar t \<Longrightarrow> \<exists>sz. Type_size (Type_promote t) = Some sz \<and> unat sz \<le> 8"
  by (cases t)
    (auto simp: scalar_size_def SIZEOF_PTR_def SIZEOF_CHAR_def SIZEOF_INT_def SIZEOF_LONG_def)

lemma arith_aux1:
  "(a :: int) \<le> 8 \<Longrightarrow> 0 \<le> l \<Longrightarrow> - 1073741824 \<le> off - 8 * (1 + l) \<Longrightarrow>
     - 2147483648 \<le> off - a"
  by arith

lemma arith_aux2:
  "(a :: int) \<le> 8 \<Longrightarrow> - 1073741824 \<le> off - 8 * (1 + l) \<Longrightarrow>
     - 1073741824 \<le> off - a - 8 * l"
  by arith

lemma assign_registers_nonpos:
  "assign_registers is params symbols offset = Some (symbols', off') \<Longrightarrow>
   list_all isScalar params \<Longrightarrow> offset \<le> 0 \<Longrightarrow> - (2 ^ 30) \<le> offset - 8 * int (length is) \<Longrightarrow>
   off' \<le> 0"
proof (induction "is" arbitrary: symbols offset)
  case Nil
  then show ?case by simp
next
  case (Cons i "is")
  show ?case
  proof (cases "i < length params")
    case False
    then show ?thesis using Cons.prems by simp
  next
    case True
    then have "isScalar (params ! i)" using Cons.prems(2) by (simp add: list_all_length)
    then obtain sz where sz: "Type_size (Type_promote (params ! i)) = Some sz"
      and le: "unat sz \<le> 8"
      using promoted_scalar_size by blast
    have le': "int (unat sz) \<le> 8" using le by linarith
    have p4: "- 1073741824 \<le> offset - 8 * (1 + int (length is))"
      using Cons.prems(4) by simp
    have ln: "0 \<le> int (length is)" by simp
    have "- 2147483648 \<le> offset - int (unat sz)" using le' ln p4 by (rule arith_aux1)
    then have b: "- (2 ^ 31) \<le> offset - int (unat sz)" by simp
    have r: "offset < 2 ^ 31" using Cons.prems(3) by simp
    have ss: "sub_size offset sz = offset - int (unat sz)" using b r by (rule sub_size_exact)
    have il: "i < length symbols" using Cons.prems(1) True sz by (auto split: if_splits)
    have rec: "assign_registers is params
                 (symbols[i := (symbols ! i)\<lparr>sym_offset := offset - int (unat sz)\<rparr>])
                 (offset - int (unat sz)) = Some (symbols', off')"
      using Cons.prems(1) True sz il ss by simp
    show ?thesis
      using rec Cons.prems(2)
    proof (rule Cons.IH)
      have "0 \<le> int (unat sz)" by simp
      then show "offset - int (unat sz) \<le> 0" using Cons.prems(3) by linarith
      have "- 1073741824 \<le> offset - int (unat sz) - 8 * int (length is)"
        using le' p4 by (rule arith_aux2)
      then show "- (2 ^ 30) \<le> offset - int (unat sz) - 8 * int (length is)"
        by simp
    qed
  qed
qed

lemma Function_parameters_nonpos:
  assumes "Function_parameters fn offset = Some (symbols, off0)"
    and "sym_type (fn_id fn) = Function s i (Some params)"
    and "list_all isScalar params"
  shows "off0 \<le> 0"
proof -
  from assms(1,2) obtain symbols0 where
    "assign_registers [0 ..< NUM_PARAM_REGS] params symbols0 0 = Some (symbols, off0)"
    by (auto simp: Function_parameters_def split: option.splits)
  then show ?thesis using assms(3)
    by (rule assign_registers_nonpos) (simp_all add: NUM_PARAM_REGS_def)
qed


lemma to_int32_mod32: "to_int32 (x mod 2 ^ 32) = to_int32 x"
proof -
  have "(x mod 2 ^ 32 + 2 ^ 31) mod 2 ^ 32 = (x + 2 ^ 31) mod (2 ^ 32 :: int)"
    by (simp add: mod_add_left_eq)
  then show ?thesis by (simp add: to_int32_def)
qed

lemma spill_exact:
  "- (2 ^ 31) \<le> offset - int (unat sz) \<Longrightarrow> offset < 2 ^ 31 \<Longrightarrow>
     spill offset sz = offset - int (unat sz)"
proof -
  assume a: "- (2 ^ 31) \<le> offset - int (unat sz)" "offset < 2 ^ 31"
  have u: "int (unat sz) = uint sz" by simp
  have "0 \<le> uint sz" by simp
  then have "offset - uint sz < 2 ^ 31" using a(2) by linarith
  moreover have "- (2 ^ 31) \<le> offset - uint sz" using a(1) u by simp
  ultimately have "to_int32 (offset - uint sz) = offset - uint sz"
    by (intro to_int32_id)
  then have "spill offset sz = offset - uint sz"
    unfolding spill_def to_int32_mod32 .
  then show ?thesis by simp
qed

lemma foldl_spill_exact:
  "- (2 ^ 31) \<le> offset - int (spilled_bytes spills) \<Longrightarrow> offset < 2 ^ 31 \<Longrightarrow>
     foldl spill offset spills = offset - int (spilled_bytes spills)"
proof (induction spills arbitrary: offset)
  case Nil
  then show ?case by (simp add: spilled_bytes_def)
next
  case (Cons sz spills)
  have sb: "spilled_bytes (sz # spills) = unat sz + spilled_bytes spills"
    by (simp add: spilled_bytes_def)
  have b: "- (2 ^ 31) \<le> offset - int (unat sz) - int (spilled_bytes spills)"
    using Cons.prems(1) sb by simp
  then have b1: "- (2 ^ 31) \<le> offset - int (unat sz)" by linarith
  have s: "spill offset sz = offset - int (unat sz)"
    using b1 Cons.prems(2) by (rule spill_exact)
  have r: "offset - int (unat sz) < 2 ^ 31" using Cons.prems(2) by linarith
  have "foldl spill (offset - int (unat sz)) spills
      = offset - int (unat sz) - int (spilled_bytes spills)"
    using b r by (rule Cons.IH)
  then show ?case using s sb by simp
qed

lemma align_le: "align x \<le> 15"
proof (cases "x mod 16 = 0")
  case True
  then show ?thesis by (simp add: align_def STACK_ALIGNMENT_def)
next
  case False
  then have "\<not> 16 dvd x" by (simp add: dvd_eq_mod_eq_0)
  then have "\<not> 16 dvd \<bar>x\<bar>" by simp
  then have "\<bar>x\<bar> mod 16 \<noteq> 0" by (simp add: dvd_eq_mod_eq_0)
  moreover have "0 \<le> \<bar>x\<bar> mod (16 :: int)" by simp
  ultimately have "16 - \<bar>x\<bar> mod 16 \<le> (15 :: int)" by linarith
  then show ?thesis using False by (simp add: align_def STACK_ALIGNMENT_def)
qed

lemma frame_exact:
  assumes lo: "- (2 ^ 31) \<le> off - 16" and hi: "off \<le> 0"
  shows "to_int32 (- to_int32 (off - align (to_int32 (off - 2 * SIZEOF_REG))))
           = align (off - 16) - off"
proof -
  have p: "off - 2 * SIZEOF_REG = off - 16" by (simp add: SIZEOF_REG_def)
  have "off - 16 < 2 ^ 31" using hi by simp
  with lo have t1: "to_int32 (off - 16) = off - 16" by (intro to_int32_id)
  let ?a = "align (off - 16)"
  have a0: "0 \<le> ?a" by (rule align_nonneg)
  have a1: "?a \<le> 15" by (rule align_le)
  have "- (2 ^ 31) \<le> off - ?a" using lo a1 by linarith
  moreover have "off - ?a < 2 ^ 31" using hi a0 by simp
  ultimately have t2: "to_int32 (off - ?a) = off - ?a" by (intro to_int32_id)
  have "- (2 ^ 31) \<le> - (off - ?a)" using hi a0 by simp
  moreover have "- (off - ?a) < 2 ^ 31" using lo a1 by linarith
  ultimately have t3: "to_int32 (- (off - ?a)) = - (off - ?a)" by (intro to_int32_id)
  show ?thesis unfolding p t1 t2 t3 by simp
qed

text \<open>
  Claim C7, as stated, speaks of every function body. The offset is an \<open>int\<close>:
  for \<open>int f(void) { long a[300000000]; return 0; }\<close> the only path declares
  2400000000 bytes, the offset wraps to 1894967296, the body spills nothing and
  the frame size computed is negative.
\<close>

theorem C7_frame_size_counterexample:
  "frame_size \<lparr>fn_id = \<lparr>sym_name = ''f'', sym_type = Function INT_t 0 (Some []), sym_offset = 0\<rparr>,
     fn_decls = [\<lparr>sym_name = ''a'', sym_type = Array LONG_t 0 300000000, sym_offset = 0\<rparr>],
     fn_stmts = [Return (Number 0 integer)]\<rparr> [] = Some (- 1894967296)
   \<and> path_sizes (Block [\<lparr>sym_name = ''a'', sym_type = Array LONG_t 0 300000000, sym_offset = 0\<rparr>]
        [Return (Number 0 integer)]) = [2400000000]"
proof (intro conjI)
  show "frame_size \<lparr>fn_id = \<lparr>sym_name = ''f'', sym_type = Function INT_t 0 (Some []), sym_offset = 0\<rparr>,
     fn_decls = [\<lparr>sym_name = ''a'', sym_type = Array LONG_t 0 300000000, sym_offset = 0\<rparr>],
     fn_stmts = [Return (Number 0 integer)]\<rparr> [] = Some (- 1894967296)"
    by code_simp
  show "path_sizes (Block [\<lparr>sym_name = ''a'', sym_type = Array LONG_t 0 300000000, sym_offset = 0\<rparr>]
        [Return (Number 0 integer)]) = [2400000000]"
    by (simp add: scalar_size_def SIZEOF_LONG_def)
qed

text \<open>
  Claim C7, amended: take a function whose parameters are scalars, let \<open>symbols\<close>
  and \<open>off0\<close> be the symbols and the offset after the parameters got theirs, let
  every symbol to allocate have a size, and let \<open>spills\<close> be the sizes the
  generation of the body spills. If the largest path sum below \<open>off0\<close>, with the
  bytes spilled and the 16 bytes of the parameter offset, fits in an \<open>int\<close>, the
  allocation returns, the final offset of the allocator is \<open>off0\<close> minus the
  largest path sum (siblings start from copies of one offset and the minimum is
  kept, so they share slots), and the frame size computed is at least the bytes
  of the register parameters, the largest path sum and the bytes spilled together,
  hence at least the sum of the sizes of the locals declared along any path, with
  the bytes spilled on top.
\<close>

theorem C7_frame_size_covers_paths:
  assumes fty: "sym_type (fn_id fn) = Function s i (Some params)"
    and scal: "list_all isScalar params"
    and params: "Function_parameters fn (2 * SIZEOF_REG) = Some (symbols, off0)"
    and sized: "sized (Block symbols (fn_stmts fn))"
    and bound: "int (depth (Block symbols (fn_stmts fn))) + int (spilled_bytes spills) - off0 + 16
                  \<le> 2 ^ 31"
    and p: "p \<in> set (path_sizes (Block symbols (fn_stmts fn)))"
  shows "\<exists>fn' fr. Function_allocate fn (2 * SIZEOF_REG)
                    = Some (fn', off0 - int (depth (Block symbols (fn_stmts fn))))
           \<and> frame_size fn spills = Some fr
           \<and> int (depth (Block symbols (fn_stmts fn))) + int (spilled_bytes spills) - off0 \<le> fr
           \<and> int p + int (spilled_bytes spills) \<le> fr"
proof -
  let ?body = "Block symbols (fn_stmts fn)"
  have range0: "off0 \<le> 0" using params fty scal by (rule Function_parameters_nonpos)
  have b: "- (2 ^ 31) \<le> off0 - int (depth ?body)" using bound by simp
  have r: "off0 < 2 ^ 31" using range0 by simp
  from allocate_exact [OF sized b r] obtain body' where
    a: "allocate ?body off0 = Some (body', off0 - int (depth ?body))" by blast
  from allocate_Block_shape [OF a] obtain symbols' stmts' where
    body': "body' = Block symbols' stmts'" by blast
  have fa: "Function_allocate fn (2 * SIZEOF_REG) =
      Some (fn\<lparr>fn_decls := symbols', fn_stmts := stmts'\<rparr>, off0 - int (depth ?body))"
    using params a body' by (simp add: Function_allocate_def)
  let ?off = "off0 - int (depth ?body)"
  let ?sp = "?off - int (spilled_bytes spills)"
  have sb: "- (2 ^ 31) \<le> ?off - int (spilled_bytes spills)" using bound by simp
  have sr: "?off < 2 ^ 31" using range0 by simp
  have fo: "foldl spill ?off spills = ?sp" using sb sr by (rule foldl_spill_exact)
  have lo: "- (2 ^ 31) \<le> ?sp - 16" using bound by simp
  have hi: "?sp \<le> 0" using range0 by simp
  have fs: "frame_size fn spills = Some (align (?sp - 16) - ?sp)"
    using fa fo frame_exact [OF lo hi] by (simp add: frame_size_def Let_def)
  have pd: "p \<le> depth ?body" using p path_le_depth by blast
  have a0: "0 \<le> align (?sp - 16)" by (rule align_nonneg)
  have c1: "int (depth ?body) + int (spilled_bytes spills) - off0 \<le> align (?sp - 16) - ?sp"
    using a0 by linarith
  have c2: "int p + int (spilled_bytes spills) \<le> align (?sp - 16) - ?sp"
    using a0 pd range0 by linarith
  show ?thesis using fa fs c1 c2 by blast
qed

theorem C7_frame_size_covers_paths_witness:
  "sym_type (fn_id
      \<lparr>fn_id = \<lparr>sym_name = ''f'', sym_type = Function INT_t 0 (Some [integer]), sym_offset = 0\<rparr>,
       fn_decls = [\<lparr>sym_name = ''a'', sym_type = integer, sym_offset = 0\<rparr>,
                   \<lparr>sym_name = ''x'', sym_type = integer, sym_offset = 0\<rparr>],
       fn_stmts = [Block [\<lparr>sym_name = ''y'', sym_type = Array CHAR_t 0 10, sym_offset = 0\<rparr>] [],
                   Block [\<lparr>sym_name = ''z'', sym_type = longint, sym_offset = 0\<rparr>]
                     [Return (Add (Add (Identifier \<lparr>sym_name = ''a'', sym_type = integer, sym_offset = 0\<rparr>)
                                       (Identifier \<lparr>sym_name = ''x'', sym_type = integer, sym_offset = 0\<rparr>)
                                       integer)
                                  (Call \<lparr>sym_name = ''g'', sym_type = Function INT_t 0 None, sym_offset = 0\<rparr>
                                     [] integer)
                                  integer)]]\<rparr>)
     = Function INT_t 0 (Some [integer])
   \<and> list_all isScalar [integer]
   \<and> Function_parameters
      \<lparr>fn_id = \<lparr>sym_name = ''f'', sym_type = Function INT_t 0 (Some [integer]), sym_offset = 0\<rparr>,
       fn_decls = [\<lparr>sym_name = ''a'', sym_type = integer, sym_offset = 0\<rparr>,
                   \<lparr>sym_name = ''x'', sym_type = integer, sym_offset = 0\<rparr>],
       fn_stmts = [Block [\<lparr>sym_name = ''y'', sym_type = Array CHAR_t 0 10, sym_offset = 0\<rparr>] [],
                   Block [\<lparr>sym_name = ''z'', sym_type = longint, sym_offset = 0\<rparr>]
                     [Return (Add (Add (Identifier \<lparr>sym_name = ''a'', sym_type = integer, sym_offset = 0\<rparr>)
                                       (Identifier \<lparr>sym_name = ''x'', sym_type = integer, sym_offset = 0\<rparr>)
                                       integer)
                                  (Call \<lparr>sym_name = ''g'', sym_type = Function INT_t 0 None, sym_offset = 0\<rparr>
                                     [] integer)
                                  integer)]]\<rparr>
      (2 * SIZEOF_REG)
     = Some ([\<lparr>sym_name = ''a'', sym_type = integer, sym_offset = - 4\<rparr>,
              \<lparr>sym_name = ''x'', sym_type = integer, sym_offset = 0\<rparr>], - 4)
   \<and> (14 :: nat) \<in> set (path_sizes (Block
        [\<lparr>sym_name = ''a'', sym_type = integer, sym_offset = - 4\<rparr>,
         \<lparr>sym_name = ''x'', sym_type = integer, sym_offset = 0\<rparr>]
        [Block [\<lparr>sym_name = ''y'', sym_type = Array CHAR_t 0 10, sym_offset = 0\<rparr>] [],
         Block [\<lparr>sym_name = ''z'', sym_type = longint, sym_offset = 0\<rparr>]
           [Return (Add (Add (Identifier \<lparr>sym_name = ''a'', sym_type = integer, sym_offset = 0\<rparr>)
                             (Identifier \<lparr>sym_name = ''x'', sym_type = integer, sym_offset = 0\<rparr>)
                             integer)
                        (Call \<lparr>sym_name = ''g'', sym_type = Function INT_t 0 None, sym_offset = 0\<rparr>
                           [] integer)
                        integer)]]))
   \<and> spilled_bytes [4] = 4
   \<and> frame_size
      \<lparr>fn_id = \<lparr>sym_name = ''f'', sym_type = Function INT_t 0 (Some [integer]), sym_offset = 0\<rparr>,
       fn_decls = [\<lparr>sym_name = ''a'', sym_type = integer, sym_offset = 0\<rparr>,
                   \<lparr>sym_name = ''x'', sym_type = integer, sym_offset = 0\<rparr>],
       fn_stmts = [Block [\<lparr>sym_name = ''y'', sym_type = Array CHAR_t 0 10, sym_offset = 0\<rparr>] [],
                   Block [\<lparr>sym_name = ''z'', sym_type = longint, sym_offset = 0\<rparr>]
                     [Return (Add (Add (Identifier \<lparr>sym_name = ''a'', sym_type = integer, sym_offset = 0\<rparr>)
                                       (Identifier \<lparr>sym_name = ''x'', sym_type = integer, sym_offset = 0\<rparr>)
                                       integer)
                                  (Call \<lparr>sym_name = ''g'', sym_type = Function INT_t 0 None, sym_offset = 0\<rparr>
                                     [] integer)
                                  integer)]]\<rparr>
      [4] = Some 32
   \<and> (14 :: int) + 4 \<le> 32"
proof -
  let ?f = "\<lparr>fn_id = \<lparr>sym_name = ''f'', sym_type = Function INT_t 0 (Some [integer]), sym_offset = 0\<rparr>,
       fn_decls = [\<lparr>sym_name = ''a'', sym_type = integer, sym_offset = 0\<rparr>,
                   \<lparr>sym_name = ''x'', sym_type = integer, sym_offset = 0\<rparr>],
       fn_stmts = [Block [\<lparr>sym_name = ''y'', sym_type = Array CHAR_t 0 10, sym_offset = 0\<rparr>] [],
                   Block [\<lparr>sym_name = ''z'', sym_type = longint, sym_offset = 0\<rparr>]
                     [Return (Add (Add (Identifier \<lparr>sym_name = ''a'', sym_type = integer, sym_offset = 0\<rparr>)
                                       (Identifier \<lparr>sym_name = ''x'', sym_type = integer, sym_offset = 0\<rparr>)
                                       integer)
                                  (Call \<lparr>sym_name = ''g'', sym_type = Function INT_t 0 None, sym_offset = 0\<rparr>
                                     [] integer)
                                  integer)]]\<rparr>"
  let ?symbols = "[\<lparr>sym_name = ''a'', sym_type = integer, sym_offset = - 4\<rparr>,
              \<lparr>sym_name = ''x'', sym_type = integer, sym_offset = 0\<rparr>]"
  have h1: "sym_type (fn_id ?f) = Function INT_t 0 (Some [integer])" by simp
  have h2: "list_all isScalar [integer]" by (simp add: integer_def)
  have h3: "Function_parameters ?f (2 * SIZEOF_REG) = Some (?symbols, - 4)" by code_simp
  have h4: "sized (Block ?symbols (fn_stmts ?f))"
    by (simp add: sized_symbols_def integer_def longint_def)
  have sp: "spilled_bytes [4] = 4" by (simp add: spilled_bytes_def)
  have h5: "int (depth (Block ?symbols (fn_stmts ?f))) + int (spilled_bytes [4]) - (- 4) + 16
               \<le> 2 ^ 31"
    unfolding sp
    by (simp add: integer_def longint_def scalar_size_def SIZEOF_INT_def SIZEOF_CHAR_def
        SIZEOF_LONG_def)
  have h6: "(14 :: nat) \<in> set (path_sizes (Block ?symbols (fn_stmts ?f)))"
    by (simp add: integer_def longint_def scalar_size_def SIZEOF_INT_def SIZEOF_CHAR_def
        SIZEOF_LONG_def)
  have fr: "frame_size ?f [4] = Some 32" by code_simp
  from C7_frame_size_covers_paths [OF h1 h2 h3 h4 h5 h6]
  have "\<exists>fr. frame_size ?f [4] = Some fr \<and> int 14 + int (spilled_bytes [4]) \<le> fr"
    by blast
  then have "(14 :: int) + 4 \<le> 32" unfolding fr sp by simp
  then show ?thesis using h1 h2 h3 h6 sp fr by simp
qed

text \<open>
  The frame size at two bodies that spill. In
  \<open>int f(int a, int b) { long x; return (a + b) + g(); }\<close> the locals end at
  offset \<open>-16\<close>, the sum \<open>a + b\<close> is spilled to \<open>-20\<close> before the call, and the size
  printed is 32. In
  \<open>long f(long a, long b) { char c[2147483616]; return (((a + b) + g()) + g()) + g(); }\<close>
  with \<open>long g();\<close> the locals end at \<open>-2147483632\<close>, inside the range of \<open>int\<close>,
  and the third spill leaves it: the size printed is negative. So the bound of
  the amended claim counts the spilled bytes.
\<close>

lemma frame_size_spilled_sum:
  "frame_size
     \<lparr>fn_id = \<lparr>sym_name = ''f'', sym_type = Function INT_t 0 (Some [integer, integer]),
                sym_offset = 0\<rparr>,
      fn_decls = [\<lparr>sym_name = ''a'', sym_type = integer, sym_offset = 0\<rparr>,
                  \<lparr>sym_name = ''b'', sym_type = integer, sym_offset = 0\<rparr>,
                  \<lparr>sym_name = ''x'', sym_type = longint, sym_offset = 0\<rparr>],
      fn_stmts = [Return (Add (Add (Identifier \<lparr>sym_name = ''a'', sym_type = integer, sym_offset = 0\<rparr>)
                                    (Identifier \<lparr>sym_name = ''b'', sym_type = integer, sym_offset = 0\<rparr>)
                                    integer)
                               (Call \<lparr>sym_name = ''g'', sym_type = Function INT_t 0 None, sym_offset = 0\<rparr>
                                  [] integer)
                               integer)]\<rparr>
     [4] = Some 32"
  by code_simp

lemma frame_size_spills_wrap:
  "frame_size
     \<lparr>fn_id = \<lparr>sym_name = ''f'', sym_type = Function LONG_t 0 (Some [longint, longint]),
                sym_offset = 0\<rparr>,
      fn_decls = [\<lparr>sym_name = ''a'', sym_type = longint, sym_offset = 0\<rparr>,
                  \<lparr>sym_name = ''b'', sym_type = longint, sym_offset = 0\<rparr>,
                  \<lparr>sym_name = ''c'', sym_type = Array CHAR_t 0 2147483616, sym_offset = 0\<rparr>],
      fn_stmts =
        [Return
          (Add (Add (Add (Add (Identifier \<lparr>sym_name = ''a'', sym_type = longint, sym_offset = 0\<rparr>)
                              (Identifier \<lparr>sym_name = ''b'', sym_type = longint, sym_offset = 0\<rparr>)
                              longint)
                         (Call \<lparr>sym_name = ''g'', sym_type = Function LONG_t 0 None, sym_offset = 0\<rparr>
                            [] longint)
                         longint)
                    (Call \<lparr>sym_name = ''g'', sym_type = Function LONG_t 0 None, sym_offset = 0\<rparr>
                       [] longint)
                    longint)
               (Call \<lparr>sym_name = ''g'', sym_type = Function LONG_t 0 None, sym_offset = 0\<rparr>
                  [] longint)
               longint)]\<rparr>
     [8, 8, 8] = Some (- 2147483632)"
  by code_simp


text \<open>
  Claim C8 says that after allocation an offset of 0 marks a global and only a
  global; \<open>Identifier::operand\<close> relies on it when it prints a symbol of offset 0
  as a global. A local whose size is 0 breaks it: in
  \<open>int f(void) { int a[0]; return 0; }\<close> the array is the first symbol allocated,
  \<open>0 - 0\<close> is its offset, and the local \<open>a\<close> keeps offset 0 after
  \<open>Function::allocate\<close>.
\<close>

theorem C8_zero_length_local_keeps_offset_zero:
  "Function_allocate
     \<lparr>fn_id = \<lparr>sym_name = ''f'', sym_type = Function INT_t 0 (Some []), sym_offset = 0\<rparr>,
      fn_decls = [\<lparr>sym_name = ''a'', sym_type = Array INT_t 0 0, sym_offset = 0\<rparr>],
      fn_stmts = [Return (Number 0 integer)]\<rparr> (2 * SIZEOF_REG)
   = Some (\<lparr>fn_id = \<lparr>sym_name = ''f'', sym_type = Function INT_t 0 (Some []), sym_offset = 0\<rparr>,
      fn_decls = [\<lparr>sym_name = ''a'', sym_type = Array INT_t 0 0, sym_offset = 0\<rparr>],
      fn_stmts = [Return (Number 0 integer)]\<rparr>, 0)"
  by code_simp

text \<open>
  What the allocator does otherwise, at one function of eight parameters and a
  local: the first six parameters and the local get negative offsets, the seventh
  and eighth parameters get 16 and 24.
\<close>

lemma Function_allocate_eight_parameters:
  "map_option (\<lambda>(fn, offset). (map sym_offset (fn_decls fn), offset))
     (Function_allocate
       \<lparr>fn_id = \<lparr>sym_name = ''f'',
                  sym_type = Function INT_t 0 (Some [integer, integer, integer, integer,
                    integer, integer, integer, integer]),
                  sym_offset = 0\<rparr>,
        fn_decls = [\<lparr>sym_name = ''a'', sym_type = integer, sym_offset = 0\<rparr>,
                    \<lparr>sym_name = ''b'', sym_type = integer, sym_offset = 0\<rparr>,
                    \<lparr>sym_name = ''c'', sym_type = integer, sym_offset = 0\<rparr>,
                    \<lparr>sym_name = ''d'', sym_type = integer, sym_offset = 0\<rparr>,
                    \<lparr>sym_name = ''e'', sym_type = integer, sym_offset = 0\<rparr>,
                    \<lparr>sym_name = ''f'', sym_type = integer, sym_offset = 0\<rparr>,
                    \<lparr>sym_name = ''g'', sym_type = integer, sym_offset = 0\<rparr>,
                    \<lparr>sym_name = ''h'', sym_type = integer, sym_offset = 0\<rparr>,
                    \<lparr>sym_name = ''x'', sym_type = longint, sym_offset = 0\<rparr>],
        fn_stmts = []\<rparr> (2 * SIZEOF_REG))
   = Some ([- 4, - 8, - 12, - 16, - 20, - 24, 16, 24, - 32], - 32)"
  by code_simp


section \<open>Properties of the labels\<close>

lemma map_of_labmap: "map_of (labmap mp) key = map_option lab (map_of mp key)"
  by (induction mp) (auto simp: labmap_def)

lemma labmap_append: "labmap (mp @ [(k, n)]) = labmap mp @ [(k, lab n)]"
  by (simp add: labmap_def)

lemma run_ideal:
  "ideal_run es m mp = (ns, m', mp') \<Longrightarrow>
   run es \<lparr>counter = of_nat m, stringMap = labmap mp\<rparr>
     = (map lab ns, \<lparr>counter = of_nat m', stringMap = labmap mp'\<rparr>)"
proof (induction es m mp arbitrary: ns m' mp' rule: ideal_run.induct)
  case (1 m mp)
  then show ?case by simp
next
  case (2 es m mp)
  then show ?case
    by (auto simp: Label_new_def lab_def add.commute split: prod.splits)
next
  case (3 key es m mp)
  show ?case
  proof (cases "map_of mp key")
    case None
    then have "ideal_run es (m + 2) (mp @ [(key, m)]) = (ns, m', mp')"
      using "3.prems" by simp
    from "3.IH"(1) [OF None this]
    show ?thesis using None
      by (simp add: String_operand_def map_of_labmap Label_new_def labmap_append lab_def
          add.commute add.left_commute)
  next
    case (Some n)
    then have "ideal_run es m mp = (ns, m', mp')" using "3.prems" by simp
    from "3.IH"(2) [OF Some this]
    show ?thesis using Some
      by (simp add: String_operand_def map_of_labmap)
  qed
qed


lemma map_of_None_keys: "map_of mp key = None \<Longrightarrow> key \<notin> set (map fst mp)"
  by (simp add: map_of_eq_None_iff)

lemma map_of_Some_keys: "map_of mp key = Some n \<Longrightarrow> key \<in> set (map fst mp)"
  by (metis map_of_eq_None_iff option.distinct(1) set_map)

lemma ideal_run_props:
  "ideal_run es m mp = (ns, m', mp') \<Longrightarrow>
   \<forall>n \<in> set (map snd mp). n < m \<Longrightarrow> distinct (map snd mp) \<Longrightarrow> distinct (map fst mp) \<Longrightarrow>
   m' = m + constructions es (map fst mp)
   \<and> (\<forall>n \<in> set ns. m \<le> n \<and> n < m')
   \<and> (\<forall>n \<in> set (map snd mp'). n < m')
   \<and> (\<exists>new. mp' = mp @ new \<and> (\<forall>n \<in> set (map snd new). m \<le> n))
   \<and> distinct (ns @ map snd mp')
   \<and> distinct (map fst mp')"
proof (induction es m mp arbitrary: ns m' mp' rule: ideal_run.induct)
  case (1 m mp)
  then show ?case by auto
next
  case (2 es m mp)
  from "2.prems"(1) obtain ns0 where r: "ideal_run es (m + 1) mp = (ns0, m', mp')"
    and ns: "ns = m # ns0"
    by (auto split: prod.splits)
  have inv: "\<forall>n \<in> set (map snd mp). n < m + 1" using "2.prems"(2) by auto
  note IH = "2.IH" [OF r inv "2.prems"(3) "2.prems"(4)]
  from IH obtain new where new: "mp' = mp @ new" "\<forall>n \<in> set (map snd new). m + 1 \<le> n"
    by blast
  have m_notin: "m \<notin> set ns0" using IH by auto
  have m_notin_mp: "m \<notin> set (map snd mp')"
    using new "2.prems"(2) by auto
  show ?case
    using IH ns new m_notin m_notin_mp by auto
next
  case (3 key es m mp)
  show ?case
  proof (cases "map_of mp key")
    case None
    then have r: "ideal_run es (m + 2) (mp @ [(key, m)]) = (ns, m', mp')"
      using "3.prems"(1) by simp
    have knew: "key \<notin> set (map fst mp)" using None by (rule map_of_None_keys)
    have inv1: "\<forall>n \<in> set (map snd (mp @ [(key, m)])). n < m + 2"
      using "3.prems"(2) by auto
    have inv2: "distinct (map snd (mp @ [(key, m)]))"
      using "3.prems"(2,3) by auto
    have inv3: "distinct (map fst (mp @ [(key, m)]))"
      using "3.prems"(4) knew by auto
    note IH = "3.IH"(1) [OF None r inv1 inv2 inv3]
    from IH obtain new where new: "mp' = (mp @ [(key, m)]) @ new"
      "\<forall>n \<in> set (map snd new). m + 2 \<le> n"
      by blast
    have c: "constructions (StringOperand key # es) (map fst mp)
             = 2 + constructions es (map fst (mp @ [(key, m)]))"
      using knew by simp
    have ex: "\<exists>new'. mp' = mp @ new' \<and> (\<forall>n \<in> set (map snd new'). m \<le> n)"
    proof (intro exI conjI)
      show "mp' = mp @ ((key, m) # new)" using new(1) by simp
      show "\<forall>n \<in> set (map snd ((key, m) # new)). m \<le> n" using new(2) by auto
    qed
    have m1: "m' = m + constructions (StringOperand key # es) (map fst mp)"
      using IH c by simp
    have m2: "\<forall>n \<in> set ns. m \<le> n \<and> n < m'" using IH by auto
    show ?thesis using IH m1 m2 ex by blast
  next
    case (Some n)
    then have r: "ideal_run es m mp = (ns, m', mp')" using "3.prems"(1) by simp
    have kold: "key \<in> set (map fst mp)" using Some by (rule map_of_Some_keys)
    note IH = "3.IH"(2) [OF Some r "3.prems"(2) "3.prems"(3) "3.prems"(4)]
    have c: "constructions (StringOperand key # es) (map fst mp)
             = constructions es (map fst mp)"
      using kold by simp
    show ?thesis unfolding c by (rule IH)
  qed
qed


lemma length_32: "LENGTH(32) = 32"
  by simp

lemma distinct_map_of_nat:
  assumes "distinct ns" and "\<forall>n \<in> set ns. n < 2 ^ 32"
  shows "distinct (map (of_nat :: nat \<Rightarrow> 32 word) ns)"
proof -
  have "inj_on (of_nat :: nat \<Rightarrow> 32 word) (set ns)"
  proof (rule inj_onI)
    fix x y assume x: "x \<in> set ns" and y: "y \<in> set ns"
      and e: "(of_nat x :: 32 word) = of_nat y"
    have "x < 2 ^ 32" "y < 2 ^ 32" using assms(2) x y by blast+
    then have lx: "x < 2 ^ LENGTH(32)" and ly: "y < 2 ^ LENGTH(32)"
      unfolding length_32 .
    have ux: "unat (of_nat x :: 32 word) = x" using refl lx by (rule of_nat_inverse)
    have uy: "unat (of_nat y :: 32 word) = y" using refl ly by (rule of_nat_inverse)
    show "x = y" using ux uy e by metis
  qed
  then show ?thesis using assms(1) by (simp add: distinct_map)
qed

lemma ideal_run_replicate:
  "ideal_run (replicate n NewLabel) m mp = ([m ..< m + n], m + n, mp)"
proof (induction n arbitrary: m)
  case 0
  then show ?case by simp
next
  case (Suc n)
  have "[m ..< m + Suc n] = m # [Suc m ..< Suc m + n]"
    by (simp add: upt_rec)
  then show ?case using Suc [of "m + 1"] by simp
qed

text \<open>
  Claim C10, as stated: every label constructed gets a number of its own. The
  counter is an \<open>unsigned\<close>: among \<open>2 ^ 32 + 1\<close> labels declared in one compilation
  the last gets the number 0 of the first.
\<close>

theorem C10_counter_wraps_counterexample:
  "\<not> distinct (map number (fst (run (replicate (2 ^ 32 + 1) NewLabel) initial)))"
proof -
  let ?n = "2 ^ 32 + 1 :: nat"
  have r: "fst (run (replicate ?n NewLabel) initial) = map lab [0 ..< ?n]"
    using run_ideal [OF ideal_run_replicate [of ?n 0 "[]"]]
    by (simp add: initial_def labmap_def)
  have m: "map number (map lab [0 ..< ?n]) = map of_nat [0 ..< ?n]"
    by (simp add: lab_def)
  have "\<not> distinct (map (of_nat :: nat \<Rightarrow> 32 word) [0 ..< ?n])"
  proof
    assume d: "distinct (map (of_nat :: nat \<Rightarrow> 32 word) [0 ..< ?n])"
    have l0: "0 < length (map (of_nat :: nat \<Rightarrow> 32 word) [0 ..< ?n])" by simp
    have l1: "2 ^ 32 < length (map (of_nat :: nat \<Rightarrow> 32 word) [0 ..< ?n])" by simp
    have "(map (of_nat :: nat \<Rightarrow> 32 word) [0 ..< ?n]) ! 0 = (map of_nat [0 ..< ?n]) ! (2 ^ 32)"
      by simp
    then have "(0 :: nat) = 2 ^ 32"
      using nth_eq_iff_index_eq [OF d l0 l1] by simp
    then show False by simp
  qed
  then show ?thesis unfolding r m .
qed

text \<open>
  Claim C10, amended: as long as one compilation constructs at most \<open>2 ^ 32\<close>
  labels, the labels declared for control flow and the labels stored for the
  strings (one for each distinct string) have pairwise distinct numbers, all drawn
  from the one counter.
\<close>

theorem C10_labels_distinct:
  assumes "constructions es [] \<le> 2 ^ 32"
  shows "distinct (map number (fst (run es initial))
                   @ map (number \<circ> snd) (stringMap (snd (run es initial))))
         \<and> distinct (map fst (stringMap (snd (run es initial))))"
proof -
  obtain ns m' mp' where i: "ideal_run es 0 [] = (ns, m', mp')"
    by (cases "ideal_run es 0 []") auto
  from ideal_run_props [OF i] have p:
    "m' = constructions es []"
    "\<forall>n \<in> set ns. n < m'"
    "\<forall>n \<in> set (map snd mp'). n < m'"
    "distinct (ns @ map snd mp')"
    "distinct (map fst mp')"
    by auto
  have r: "run es initial = (map lab ns, \<lparr>counter = of_nat m', stringMap = labmap mp'\<rparr>)"
    using run_ideal [OF i] by (simp add: initial_def labmap_def)
  have b: "\<forall>n \<in> set (ns @ map snd mp'). n < 2 ^ 32"
    using p(1,2,3) assms by fastforce
  have d: "distinct (map (of_nat :: nat \<Rightarrow> 32 word) (ns @ map snd mp'))"
    using p(4) b by (rule distinct_map_of_nat)
  have e1: "map number (map lab ns) = map of_nat ns"
    by (simp add: lab_def)
  have e2: "map (number \<circ> snd) (labmap mp') = map of_nat (map snd mp')"
    by (induction mp') (auto simp: labmap_def lab_def)
  have e3: "map fst (labmap mp') = map fst mp'"
    by (induction mp') (auto simp: labmap_def)
  show ?thesis
    using d p(5) by (simp add: r e1 e2 e3 del: map_map)
qed

theorem C10_labels_distinct_witness:
  "constructions [NewLabel, NewLabel, StringOperand ''hi'', NewLabel, StringOperand ''hi'',
                  StringOperand ''yo''] [] \<le> 2 ^ 32
   \<and> distinct (map number (fst (run [NewLabel, NewLabel, StringOperand ''hi'', NewLabel,
                                     StringOperand ''hi'', StringOperand ''yo''] initial))
               @ map (number \<circ> snd) (stringMap (snd (run [NewLabel, NewLabel,
                    StringOperand ''hi'', NewLabel, StringOperand ''hi'',
                    StringOperand ''yo''] initial))))"
proof -
  have h: "constructions [NewLabel, NewLabel, StringOperand ''hi'', NewLabel,
             StringOperand ''hi'', StringOperand ''yo''] [] \<le> 2 ^ 32"
    by simp
  show ?thesis using h C10_labels_distinct [OF h] by blast
qed


section \<open>Properties of the driver\<close>

lemma translation_unit_errors:
  "numerrors st \<noteq> 0 \<Longrightarrow>
     \<exists>st'. translation_unit items st = Some st' \<and> emitted st' = emitted st
         \<and> generator st' = generator st \<and> numerrors st' \<noteq> 0"
proof (induction items arbitrary: st)
  case Nil
  then show ?case by simp
next
  case (Cons item items)
  have "\<exists>st1. globalOrFunction item st = Some st1 \<and> emitted st1 = emitted st
         \<and> generator st1 = generator st \<and> numerrors st1 \<noteq> 0"
  proof (cases item)
    case (Globals ds)
    have "\<And>s. numerrors s \<noteq> 0 \<Longrightarrow> emitted (fold globalDeclarator ds s) = emitted s
        \<and> generator (fold globalDeclarator ds s) = generator s
        \<and> numerrors (fold globalDeclarator ds s) \<noteq> 0"
    proof (induction ds)
      case Nil
      then show ?case by simp
    next
      case (Cons d ds)
      have "emitted (globalDeclarator d s) = emitted s
        \<and> generator (globalDeclarator d s) = generator s
        \<and> numerrors (globalDeclarator d s) \<noteq> 0"
        using Cons.prems by (cases d) (auto split: prod.splits)
      then show ?case using Cons.IH [of "globalDeclarator d s"] by simp
    qed
    then show ?thesis using Globals Cons.prems by simp
  next
    case (Definition name ty diags decls stmts events)
    then show ?thesis using Cons.prems
      by (auto simp: Let_def split: prod.splits)
  qed
  then obtain st1 where s1: "globalOrFunction item st = Some st1" "emitted st1 = emitted st"
    "generator st1 = generator st" "numerrors st1 \<noteq> 0" by blast
  from Cons.IH [OF s1(4)] obtain st' where "translation_unit items st1 = Some st'"
    "emitted st' = emitted st1" "generator st' = generator st1" "numerrors st' \<noteq> 0" by blast
  then show ?case using s1 by simp
qed


lemma generateGlobals_data:
  "generateGlobals symbols g = Some gl \<Longrightarrow> DataDirective \<in> set gl"
  by (auto simp: generateGlobals_def split: option.splits)

lemma comm_directives_eq:
  "comm_directives symbols = Some cs \<Longrightarrow>
     cs = map (\<lambda>symbol. Comm (sym_name symbol) (the (Type_size (sym_type symbol))))
            (filter (\<lambda>symbol. \<not> isFunction (sym_type symbol)) symbols)"
  by (induction symbols arbitrary: cs) (auto split: if_splits option.splits)

lemma comm_directives_sized:
  "list_all (\<lambda>symbol. isFunction (sym_type symbol) \<or> Type_size (sym_type symbol) \<noteq> None)
     symbols \<Longrightarrow>
   \<exists>cs. comm_directives symbols = Some cs"
  by (induction symbols) auto

lemma main_eq:
  "(main unit = Some (n, out)) =
     (\<exists>st' cs. translation_unit unit
                  \<lparr>outermost = [], numerrors = 0, generator = initial, emitted = []\<rparr> = Some st'
        \<and> comm_directives (outermost st') = Some cs
        \<and> n = numerrors st'
        \<and> out = emitted st' @ cs @ [DataDirective]
                  @ map (\<lambda>(key, label). Asciz label key)
                      (sort_key fst (stringMap (generator st'))))"
  by (auto simp: main_def generateGlobals_def split: option.splits)

text \<open>
  Claim C2, as stated: with a nonzero error counter at the end of parsing nothing
  is emitted. For
  \<open>int puts();  int f(void) { puts("hi"); return 0; }  int x;  long x;\<close>
  the second declaration of \<open>x\<close> is reported, and the output still holds the code
  of \<open>f\<close>, written before the error, the \<open>.comm\<close> directive of \<open>x\<close>, the \<open>.data\<close>
  directive and the string.
\<close>

theorem C2_emission_counterexample:
  "main [Globals [FunctionDeclaration ''puts'' (Function INT_t 0 None)],
         Definition ''f'' (Function INT_t 0 (Some [])) [] []
           [Simple (Call \<lparr>sym_name = ''puts'', sym_type = Function INT_t 0 None, sym_offset = 0\<rparr>
                      [Address (String_e ''hi'') (Scalar CHAR_t 1)] (Scalar INT_t 0)),
            Return (Number 0 integer)]
           [StringOperand ''hi''],
         Globals [Variable ''x'' integer],
         Globals [Variable ''x'' longint]]
   = Some (1, [FunctionCode ''f'', Comm ''x'' 4, DataDirective, Asciz \<lparr>number = 0\<rparr> ''hi''])"
  by code_simp

text \<open>
  Claim C2, amended: once the error counter is nonzero the rest of the translation
  unit emits nothing; the code of a function definition is emitted exactly when
  the counter is zero at the end of that definition; and whatever the counter at
  the end of the input, the output is the function code emitted so far, followed
  by a \<open>.comm\<close> directive for every symbol of the outermost scope that is not a
  function, the \<open>.data\<close> directive and the interned strings in the order of
  their keys. The third part reads an output of \<open>main\<close> that way; the fourth
  says that \<open>main\<close> returns it whenever the input is parsed to its end and every
  global that is not a function has a size.
\<close>

theorem C2_emission_amended:
  "(numerrors st \<noteq> 0 \<longrightarrow>
      (\<exists>st'. translation_unit items st = Some st' \<and> emitted st' = emitted st
            \<and> numerrors st' \<noteq> 0))
   \<and> (globalOrFunction (Definition name ty diags decls stmts events) st = Some st2 \<longrightarrow>
        emitted st2 = (if numerrors st2 = 0 then emitted st @ [FunctionCode name]
                       else emitted st))
   \<and> (main unit = Some (n, out) \<longrightarrow>
        (\<exists>end_state.
           translation_unit unit
               \<lparr>outermost = [], numerrors = 0, generator = initial, emitted = []\<rparr>
             = Some end_state
           \<and> n = numerrors end_state
           \<and> out = emitted end_state
                 @ map (\<lambda>symbol. Comm (sym_name symbol) (the (Type_size (sym_type symbol))))
                     (filter (\<lambda>symbol. \<not> isFunction (sym_type symbol)) (outermost end_state))
                 @ [DataDirective]
                 @ map (\<lambda>(key, label). Asciz label key)
                     (sort_key fst (stringMap (generator end_state)))))
   \<and> (translation_unit unit
           \<lparr>outermost = [], numerrors = 0, generator = initial, emitted = []\<rparr>
         = Some final
       \<and> list_all (\<lambda>symbol. isFunction (sym_type symbol) \<or> Type_size (sym_type symbol) \<noteq> None)
           (outermost final)
       \<longrightarrow> main unit
             = Some (numerrors final,
                 emitted final
                 @ map (\<lambda>symbol. Comm (sym_name symbol) (the (Type_size (sym_type symbol))))
                     (filter (\<lambda>symbol. \<not> isFunction (sym_type symbol)) (outermost final))
                 @ [DataDirective]
                 @ map (\<lambda>(key, label). Asciz label key)
                     (sort_key fst (stringMap (generator final)))))"
proof (intro conjI impI)
  assume "numerrors st \<noteq> 0"
  then show "\<exists>st'. translation_unit items st = Some st' \<and> emitted st' = emitted st
            \<and> numerrors st' \<noteq> 0"
    using translation_unit_errors [of st items] by blast
next
  assume "globalOrFunction (Definition name ty diags decls stmts events) st = Some st2"
  then show "emitted st2 = (if numerrors st2 = 0 then emitted st @ [FunctionCode name]
                       else emitted st)"
    by (auto simp: Let_def Function_generate_def Symbol_new_def
        split: prod.splits option.splits if_splits)
next
  assume "main unit = Some (n, out)"
  then obtain st' cs where
    t: "translation_unit unit
          \<lparr>outermost = [], numerrors = 0, generator = initial, emitted = []\<rparr> = Some st'"
    and c: "comm_directives (outermost st') = Some cs"
    and n: "n = numerrors st'"
    and out: "out = emitted st' @ cs @ [DataDirective]
                  @ map (\<lambda>(key, label). Asciz label key)
                      (sort_key fst (stringMap (generator st')))"
    unfolding main_eq by blast
  from c have "cs = map (\<lambda>symbol. Comm (sym_name symbol) (the (Type_size (sym_type symbol))))
            (filter (\<lambda>symbol. \<not> isFunction (sym_type symbol)) (outermost st'))"
    by (rule comm_directives_eq)
  with t n out show "\<exists>end_state.
           translation_unit unit
               \<lparr>outermost = [], numerrors = 0, generator = initial, emitted = []\<rparr>
             = Some end_state
           \<and> n = numerrors end_state
           \<and> out = emitted end_state
                 @ map (\<lambda>symbol. Comm (sym_name symbol) (the (Type_size (sym_type symbol))))
                     (filter (\<lambda>symbol. \<not> isFunction (sym_type symbol)) (outermost end_state))
                 @ [DataDirective]
                 @ map (\<lambda>(key, label). Asciz label key)
                     (sort_key fst (stringMap (generator end_state)))"
    by blast
next
  assume a: "translation_unit unit
           \<lparr>outermost = [], numerrors = 0, generator = initial, emitted = []\<rparr>
         = Some final
       \<and> list_all (\<lambda>symbol. isFunction (sym_type symbol) \<or> Type_size (sym_type symbol) \<noteq> None)
           (outermost final)"
  then have "\<exists>cs. comm_directives (outermost final) = Some cs"
    by (intro comm_directives_sized) simp
  then obtain cs where c: "comm_directives (outermost final) = Some cs" ..
  from c have e: "cs = map (\<lambda>symbol. Comm (sym_name symbol) (the (Type_size (sym_type symbol))))
            (filter (\<lambda>symbol. \<not> isFunction (sym_type symbol)) (outermost final))"
    by (rule comm_directives_eq)
  have "main unit = Some (numerrors final, emitted final @ cs @ [DataDirective]
                  @ map (\<lambda>(key, label). Asciz label key)
                      (sort_key fst (stringMap (generator final))))"
    using a c by (simp add: main_def generateGlobals_def)
  then show "main unit
             = Some (numerrors final,
                 emitted final
                 @ map (\<lambda>symbol. Comm (sym_name symbol) (the (Type_size (sym_type symbol))))
                     (filter (\<lambda>symbol. \<not> isFunction (sym_type symbol)) (outermost final))
                 @ [DataDirective]
                 @ map (\<lambda>(key, label). Asciz label key)
                     (sort_key fst (stringMap (generator final))))"
    unfolding e .
qed

theorem C2_emission_amended_witness:
  "numerrors \<lparr>outermost = [], numerrors = 1, generator = initial, emitted = []\<rparr> \<noteq> 0
   \<and> translation_unit
        [Definition ''g'' (Function INT_t 0 (Some [])) [] [] [Return (Number 0 integer)] []]
        \<lparr>outermost = [], numerrors = 1, generator = initial, emitted = []\<rparr>
      \<noteq> None
   \<and> globalOrFunction
        (Definition ''g'' (Function INT_t 0 (Some [])) [] [] [Return (Number 0 integer)] [])
        \<lparr>outermost = [], numerrors = 1, generator = initial, emitted = []\<rparr>
      = Some \<lparr>outermost = [Symbol_new ''g'' (Function INT_t 0 (Some []))], numerrors = 1,
              generator = initial, emitted = []\<rparr>
   \<and> translation_unit
        [Globals [FunctionDeclaration ''puts'' (Function INT_t 0 None)],
         Definition ''f'' (Function INT_t 0 (Some [])) [] []
           [Simple (Call \<lparr>sym_name = ''puts'', sym_type = Function INT_t 0 None, sym_offset = 0\<rparr>
                      [Address (String_e ''b'') (Scalar CHAR_t 1)] (Scalar INT_t 0)),
            Simple (Call \<lparr>sym_name = ''puts'', sym_type = Function INT_t 0 None, sym_offset = 0\<rparr>
                      [Address (String_e ''a'') (Scalar CHAR_t 1)] (Scalar INT_t 0)),
            Return (Number 0 integer)]
           [StringOperand ''b'', StringOperand ''a''],
         Globals [Variable ''x'' integer],
         Globals [Variable ''x'' longint]]
        \<lparr>outermost = [], numerrors = 0, generator = initial, emitted = []\<rparr>
      = Some \<lparr>outermost = [Symbol_new ''puts'' (Function INT_t 0 None),
                           Symbol_new ''f'' (Function INT_t 0 (Some [])),
                           Symbol_new ''x'' integer],
              numerrors = 1,
              generator = \<lparr>counter = 4,
                           stringMap = [(''b'', \<lparr>number = 0\<rparr>), (''a'', \<lparr>number = 2\<rparr>)]\<rparr>,
              emitted = [FunctionCode ''f'']\<rparr>
   \<and> main
        [Globals [FunctionDeclaration ''puts'' (Function INT_t 0 None)],
         Definition ''f'' (Function INT_t 0 (Some [])) [] []
           [Simple (Call \<lparr>sym_name = ''puts'', sym_type = Function INT_t 0 None, sym_offset = 0\<rparr>
                      [Address (String_e ''b'') (Scalar CHAR_t 1)] (Scalar INT_t 0)),
            Simple (Call \<lparr>sym_name = ''puts'', sym_type = Function INT_t 0 None, sym_offset = 0\<rparr>
                      [Address (String_e ''a'') (Scalar CHAR_t 1)] (Scalar INT_t 0)),
            Return (Number 0 integer)]
           [StringOperand ''b'', StringOperand ''a''],
         Globals [Variable ''x'' integer],
         Globals [Variable ''x'' longint]]
      = Some (1, [FunctionCode ''f'', Comm ''x'' 4, DataDirective,
                  Asciz \<lparr>number = 2\<rparr> ''a'', Asciz \<lparr>number = 0\<rparr> ''b''])"
proof -
  let ?st = "\<lparr>outermost = [], numerrors = 1, generator = initial, emitted = []\<rparr>"
  let ?g = "Definition ''g'' (Function INT_t 0 (Some [])) [] [] [Return (Number 0 integer)] []"
  let ?st2 = "\<lparr>outermost = [Symbol_new ''g'' (Function INT_t 0 (Some []))], numerrors = 1,
              generator = initial, emitted = []\<rparr>"
  let ?unit = "[Globals [FunctionDeclaration ''puts'' (Function INT_t 0 None)],
         Definition ''f'' (Function INT_t 0 (Some [])) [] []
           [Simple (Call \<lparr>sym_name = ''puts'', sym_type = Function INT_t 0 None, sym_offset = 0\<rparr>
                      [Address (String_e ''b'') (Scalar CHAR_t 1)] (Scalar INT_t 0)),
            Simple (Call \<lparr>sym_name = ''puts'', sym_type = Function INT_t 0 None, sym_offset = 0\<rparr>
                      [Address (String_e ''a'') (Scalar CHAR_t 1)] (Scalar INT_t 0)),
            Return (Number 0 integer)]
           [StringOperand ''b'', StringOperand ''a''],
         Globals [Variable ''x'' integer],
         Globals [Variable ''x'' longint]]"
  let ?final = "\<lparr>outermost = [Symbol_new ''puts'' (Function INT_t 0 None),
                           Symbol_new ''f'' (Function INT_t 0 (Some [])),
                           Symbol_new ''x'' integer],
              numerrors = 1,
              generator = \<lparr>counter = 4,
                           stringMap = [(''b'', \<lparr>number = 0\<rparr>), (''a'', \<lparr>number = 2\<rparr>)]\<rparr>,
              emitted = [FunctionCode ''f'']\<rparr>"
  have h1: "numerrors ?st \<noteq> 0" by simp
  have h2: "globalOrFunction ?g ?st = Some ?st2"
    by (simp add: defineFunction_def Scope_find_def Scope_insert_def)
  have h3: "translation_unit ?unit
              \<lparr>outermost = [], numerrors = 0, generator = initial, emitted = []\<rparr>
            = Some ?final"
    by code_simp
  have h4: "list_all (\<lambda>symbol. isFunction (sym_type symbol) \<or> Type_size (sym_type symbol) \<noteq> None)
              (outermost ?final)"
    by (simp add: Symbol_new_def integer_def)
  note t = C2_emission_amended [of ?st "[?g]" "''g''" "Function INT_t 0 (Some [])" "[]" "[]"
      "[Return (Number 0 integer)]" "[]" ?st2 ?unit 1
      "[FunctionCode ''f'', Comm ''x'' 4, DataDirective,
        Asciz \<lparr>number = 2\<rparr> ''a'', Asciz \<lparr>number = 0\<rparr> ''b'']" ?final]
  have c1: "translation_unit [?g] ?st \<noteq> None" using t h1 by fastforce
  have "main ?unit
          = Some (numerrors ?final,
                 emitted ?final
                 @ map (\<lambda>symbol. Comm (sym_name symbol) (the (Type_size (sym_type symbol))))
                     (filter (\<lambda>symbol. \<not> isFunction (sym_type symbol)) (outermost ?final))
                 @ [DataDirective]
                 @ map (\<lambda>(key, label). Asciz label key)
                     (sort_key fst (stringMap (generator ?final))))"
    using t h3 h4 by blast
  then have c4: "main ?unit = Some (1, [FunctionCode ''f'', Comm ''x'' 4, DataDirective,
                  Asciz \<lparr>number = 2\<rparr> ''a'', Asciz \<lparr>number = 0\<rparr> ''b''])"
    by (simp add: Symbol_new_def integer_def scalar_size_def SIZEOF_INT_def)
  show ?thesis using h1 h2 h3 c1 c4 by blast
qed

end
